theory Spec2Isabelle
  imports Main
begin

section \<open>Python values, exceptions and process outcomes\<close>

text \<open>
  The script \<^verbatim>\<open>provision.py\<close> is a straight-line procedure over a YAML document and
  the boto3 EC2 client. The values a YAML scalar can take are a \<open>pyval\<close>; the parsed
  document is a dictionary from strings to such values, or a bare scalar (subscripting
  which raises \<open>TypeError\<close>).
\<close>

datatype pyval = PyNone | PyBool bool | PyInt int | PyStr string

datatype document = Mapping "string \<rightharpoonup> pyval" | Scalar pyval

text \<open>
  The exceptions of the run. \<open>ClientError\<close> carries \<^verbatim>\<open>str(e)\<close>; it is the only class
  the handlers around the EC2 calls catch. \<open>WaiterError\<close> is what a boto3 waiter raises,
  \<open>OtherException\<close> stands for every further class (connection and parameter validation
  errors of the client library, I/O errors of \<^verbatim>\<open>open\<close>).
\<close>

datatype exn =
    ClientError string
  | WaiterError string
  | KeyError string
  | TypeError
  | IndexError
  | FileNotFoundError
  | YAMLError string
  | OtherException string

text \<open>
  A function of the script either returns, leaves through \<^verbatim>\<open>sys.exit(n)\<close>, or lets an
  exception escape; an exception that escapes the whole script ends the interpreter
  with status 1.
\<close>

datatype 'a outcome = Return 'a | Exit int | Uncaught exn

fun exit_status :: "'a outcome \<Rightarrow> int" where
  "exit_status (Return _) = 0"
| "exit_status (Exit n) = n"
| "exit_status (Uncaught _) = 1"

subsection \<open>Strings\<close>

definition quote :: string where
  "quote = [CHR 0x27]"

definition newline :: string where
  "newline = [CHR 0x0A]"

definition digit_chars :: string where
  "digit_chars = ''0123456789''"

function str_nat :: "nat \<Rightarrow> string" where
  "str_nat n = (if n < 10 then [digit_chars ! n] else str_nat (n div 10) @ [digit_chars ! (n mod 10)])"
  by pat_completeness auto
termination
  by (relation "measure id") auto

declare str_nat.simps [simp del]

definition str_int :: "int \<Rightarrow> string" where
  "str_int i = (if i < 0 then ''-'' @ str_nat (nat (- i)) else str_nat (nat i))"

text \<open>\<^verbatim>\<open>str(v)\<close>, which is also how an f-string renders \<open>v\<close>.\<close>

fun py_str :: "pyval \<Rightarrow> string" where
  "py_str PyNone = ''None''"
| "py_str (PyBool b) = (if b then ''True'' else ''False'')"
| "py_str (PyInt i) = str_int i"
| "py_str (PyStr s) = s"

text \<open>\<^verbatim>\<open>sep.join(xs)\<close>.\<close>

fun join :: "string \<Rightarrow> string list \<Rightarrow> string" where
  "join sep [] = []"
| "join sep [x] = x"
| "join sep (x # y # ys) = x @ sep @ join sep (y # ys)"

text \<open>\<^verbatim>\<open>pat in s\<close> on strings: \<open>pat\<close> occurs in \<open>s\<close> as a contiguous block.\<close>

fun py_in :: "string \<Rightarrow> string \<Rightarrow> bool" where
  "py_in pat [] = (pat = [])"
| "py_in pat (c # cs) = (take (length pat) (c # cs) = pat \<or> py_in pat cs)"

subsection \<open>Subscripts\<close>

text \<open>\<^verbatim>\<open>config[key]\<close>: \<open>KeyError\<close> on a missing key, \<open>TypeError\<close> on a scalar.\<close>

fun subscript :: "document \<Rightarrow> string \<Rightarrow> exn + pyval" where
  "subscript (Mapping m) key = (case m key of None \<Rightarrow> Inl (KeyError key) | Some v \<Rightarrow> Inr v)"
| "subscript (Scalar _) key = Inl TypeError"

text \<open>\<^verbatim>\<open>xs[i]\<close> for a non-negative index: \<open>IndexError\<close> past the end.\<close>

definition py_index :: "'a list \<Rightarrow> nat \<Rightarrow> exn + 'a" where
  "py_index xs i = (if i < length xs then Inr (xs ! i) else Inl IndexError)"

section \<open>The EC2 client and the world it acts on\<close>

record vpc =
  VpcId :: string

record security_group =
  GroupId :: string

record ip_permission =
  IpProtocol :: string
  FromPort :: int
  ToPort :: int
  IpRanges :: "string list"

record tag_specification =
  ResourceType :: string
  Tags :: "(string \<times> string) list"

record run_request =
  ImageId :: pyval
  MinCount :: int
  MaxCount :: pyval
  InstanceType :: pyval
  KeyName :: pyval
  SecurityGroupIds :: "string list"
  TagSpecifications :: "tag_specification list"

record ec2_instance =
  InstanceId :: string
  PublicIpAddress :: "string option"

record reservation =
  Instances :: "ec2_instance list"

text \<open>
  Every effect of the script on the outside is logged: one event per remote call (with
  its arguments) and one per \<^verbatim>\<open>time.sleep\<close>.
\<close>

datatype event =
    DescribeVpcs "(string \<times> string list) list"
  | DescribeSecurityGroups "pyval list"
  | CreateSecurityGroup pyval pyval string
  | AuthorizeSecurityGroupIngress string "ip_permission list"
  | RunInstances run_request
  | WaitInstanceRunning "string list"
  | DescribeInstances "string list"
  | TerminateInstances "string list"
  | WaitInstanceTerminated "string list"
  | DeleteSecurityGroup string
  | Sleep nat

text \<open>
  The provider is arbitrary: each method of the client is a function of its arguments
  and of the provider's state \<open>'s\<close>, and answers with an exception or a response and the
  next state. The waiters obtained by \<^verbatim>\<open>get_waiter\<close> are the two \<open>wait\<close> methods.
\<close>

record 's ec2_client =
  ec2_describe_vpcs :: "(string \<times> string list) list \<Rightarrow> 's \<Rightarrow> (exn + vpc list) \<times> 's"
  ec2_describe_security_groups :: "pyval list \<Rightarrow> 's \<Rightarrow> (exn + security_group list) \<times> 's"
  ec2_create_security_group :: "pyval \<Rightarrow> pyval \<Rightarrow> string \<Rightarrow> 's \<Rightarrow> (exn + string) \<times> 's"
  ec2_authorize_security_group_ingress :: "string \<Rightarrow> ip_permission list \<Rightarrow> 's \<Rightarrow> (exn + unit) \<times> 's"
  ec2_run_instances :: "run_request \<Rightarrow> 's \<Rightarrow> (exn + ec2_instance list) \<times> 's"
  ec2_wait_instance_running :: "string list \<Rightarrow> 's \<Rightarrow> (exn + unit) \<times> 's"
  ec2_describe_instances :: "string list \<Rightarrow> 's \<Rightarrow> (exn + reservation list) \<times> 's"
  ec2_terminate_instances :: "string list \<Rightarrow> 's \<Rightarrow> (exn + unit) \<times> 's"
  ec2_wait_instance_terminated :: "string list \<Rightarrow> 's \<Rightarrow> (exn + unit) \<times> 's"
  ec2_delete_security_group :: "string \<Rightarrow> 's \<Rightarrow> (exn + unit) \<times> 's"

record 's world =
  provider :: 's
  trace :: "event list"
  stdout :: "string list"

text \<open>\<^verbatim>\<open>print(s)\<close>: one entry of \<open>stdout\<close> per call.\<close>

definition py_print :: "string \<Rightarrow> 's world \<Rightarrow> 's world" where
  "py_print s w = w\<lparr>stdout := stdout w @ [s]\<rparr>"

text \<open>A remote call: the provider answers and moves on, the call is logged.\<close>

definition call :: "event \<Rightarrow> ('s \<Rightarrow> (exn + 'a) \<times> 's) \<Rightarrow> 's world \<Rightarrow> (exn + 'a) \<times> 's world" where
  "call ev f w =
     (case f (provider w) of
        (r, s') \<Rightarrow> (r, w\<lparr>provider := s', trace := trace w @ [ev]\<rparr>))"

section \<open>load_config\<close>

text \<open>
  \<open>fs path\<close> is what \<^verbatim>\<open>open(path)\<close> followed by \<^verbatim>\<open>yaml.safe_load\<close> gives: the parsed
  document or the exception raised.
\<close>

definition load_config :: "(string \<Rightarrow> exn + document) \<Rightarrow> string \<Rightarrow> 's world \<Rightarrow> document outcome \<times> 's world" where
  "load_config fs config_path w =
     (case fs config_path of
        Inr config \<Rightarrow> (Return config, w)
      | Inl FileNotFoundError \<Rightarrow>
          (Exit 1, py_print (''Error: Config file '' @ quote @ config_path @ quote @ '' not found.'') w)
      | Inl (YAMLError e) \<Rightarrow>
          (Exit 1, py_print (''Error parsing config file '' @ quote @ config_path @ quote @ '': '' @ e) w)
      | Inl e \<Rightarrow> (Uncaught e, w))"

section \<open>create_security_group\<close>

definition ssh_rule :: ip_permission where
  "ssh_rule = \<lparr>IpProtocol = ''tcp'', FromPort = 22, ToPort = 22, IpRanges = [''0.0.0.0/0'']\<rparr>"

definition http_rule :: ip_permission where
  "http_rule = \<lparr>IpProtocol = ''tcp'', FromPort = 80, ToPort = 80, IpRanges = [''0.0.0.0/0'']\<rparr>"

text \<open>The inner handler (lines 71-73): a \<open>ClientError\<close> is printed and exits with 1.\<close>

definition creation_error :: "exn \<Rightarrow> 's world \<Rightarrow> string outcome \<times> 's world" where
  "creation_error e w =
     (case e of
        ClientError msg \<Rightarrow>
          (Exit 1, py_print (''Error creating security group or adding rules: '' @ msg) w)
      | _ \<Rightarrow> (Uncaught e, w))"

definition create_security_group ::
  "'s ec2_client \<Rightarrow> string \<Rightarrow> pyval \<Rightarrow> pyval \<Rightarrow> 's world \<Rightarrow> string outcome \<times> 's world" where
  "create_security_group c vpc_id sg_name sg_description w =
     (let w1 = py_print (''Checking for existing security group: '' @ py_str sg_name @ ''...'') w in
      case call (DescribeSecurityGroups [sg_name]) (ec2_describe_security_groups c [sg_name]) w1 of
        (Inr groups, w2) \<Rightarrow>
          (case py_index groups 0 of
             Inl e \<Rightarrow> (Uncaught e, w2)
           | Inr g \<Rightarrow>
               (Return (GroupId g),
                py_print (''Security Group '' @ quote @ py_str sg_name @ quote
                          @ '' already exists with ID: '' @ GroupId g) w2))
      | (Inl (ClientError e), w2) \<Rightarrow>
          if py_in ''DoesNotExist'' e then
            (let w3 = py_print (''Security Group '' @ quote @ py_str sg_name @ quote
                                @ '' does not exist. Creating...'') w2 in
             case call (CreateSecurityGroup sg_name sg_description vpc_id)
                       (ec2_create_security_group c sg_name sg_description vpc_id) w3 of
               (Inl err, w4) \<Rightarrow> creation_error err w4
             | (Inr sg_id, w4) \<Rightarrow>
                 (let w5 = py_print (''Security Group '' @ quote @ py_str sg_name @ quote
                                     @ '' created with ID: '' @ sg_id) w4 in
                  case call (AuthorizeSecurityGroupIngress sg_id [ssh_rule])
                            (ec2_authorize_security_group_ingress c sg_id [ssh_rule]) w5 of
                    (Inl err, w6) \<Rightarrow> creation_error err w6
                  | (Inr _, w6) \<Rightarrow>
                      (let w7 = py_print (''Ingress rule for SSH (Port 22) added to ''
                                          @ py_str sg_name @ ''.'') w6 in
                       case call (AuthorizeSecurityGroupIngress sg_id [http_rule])
                                 (ec2_authorize_security_group_ingress c sg_id [http_rule]) w7 of
                         (Inl err, w8) \<Rightarrow> creation_error err w8
                       | (Inr _, w8) \<Rightarrow>
                           (Return sg_id,
                            py_print (''Ingress rule for HTTP (Port 80) added to ''
                                      @ py_str sg_name @ ''.'') w8))))
          else (Exit 1, py_print (''Error describing security group: '' @ e) w2)
      | (Inl e, w2) \<Rightarrow> (Uncaught e, w2))"

section \<open>provision_ec2_instance\<close>

text \<open>
  The keyword arguments of \<^verbatim>\<open>run_instances\<close> (lines 83-103), evaluated in the order
  written; \<open>now\<close> is \<^verbatim>\<open>int(time.time())\<close>. A failing subscript raises before the call.
\<close>

definition launch_request :: "document \<Rightarrow> string \<Rightarrow> int \<Rightarrow> exn + run_request" where
  "launch_request config sg_id now =
     (case subscript config ''ami_id'' of
        Inl e \<Rightarrow> Inl e
      | Inr ami_id \<Rightarrow>
     (case subscript config ''instance_count'' of
        Inl e \<Rightarrow> Inl e
      | Inr instance_count \<Rightarrow>
     (case subscript config ''instance_type'' of
        Inl e \<Rightarrow> Inl e
      | Inr instance_type \<Rightarrow>
     (case subscript config ''key_pair_name'' of
        Inl e \<Rightarrow> Inl e
      | Inr key_pair_name \<Rightarrow>
          Inr \<lparr>ImageId = ami_id,
               MinCount = 1,
               MaxCount = instance_count,
               InstanceType = instance_type,
               KeyName = key_pair_name,
               SecurityGroupIds = [sg_id],
               TagSpecifications =
                 [\<lparr>ResourceType = ''instance'',
                   Tags = [(''Name'', ''Automated-Instance-'' @ str_int now),
                           (''Project'', ''Python-DevOps-Provisioner'')]\<rparr>]\<rparr>))))"

text \<open>The handler of lines 136-144; any other exception class passes through it.\<close>

definition launch_error :: "exn \<Rightarrow> 's world \<Rightarrow> 'a outcome \<times> 's world" where
  "launch_error e w =
     (case e of
        ClientError msg \<Rightarrow>
          (let w1 = py_print (''Error launching EC2 instance(s): '' @ msg) w;
               w2 = (if py_in ''InvalidKeyPair.NotFound'' msg
                     then py_print ''Please ensure the key_pair_name in config.yaml exists in your AWS EC2 Key Pairs.'' w1
                     else w1);
               w3 = (if py_in ''InvalidAMIID.NotFound'' msg \<or> py_in ''InvalidAMIID.Malformed'' msg
                     then py_print ''Please verify the ami_id in config.yaml is correct for your region.'' w2
                     else w2)
           in (Exit 1, w3))
      | _ \<Rightarrow> (Uncaught e, w))"

text \<open>The two nested loops of lines 117-121.\<close>

fun instance_public_ips :: "ec2_instance list \<Rightarrow> string list" where
  "instance_public_ips [] = []"
| "instance_public_ips (i # rest) =
     (case PublicIpAddress i of
        Some ip \<Rightarrow> ip # instance_public_ips rest
      | None \<Rightarrow> instance_public_ips rest)"

fun collect_public_ips :: "reservation list \<Rightarrow> string list" where
  "collect_public_ips [] = []"
| "collect_public_ips (r # rest) = instance_public_ips (Instances r) @ collect_public_ips rest"

text \<open>The summary loop of lines 124-132 over \<^verbatim>\<open>enumerate(instance_ids)\<close>.\<close>

fun print_summary ::
  "document \<Rightarrow> string \<Rightarrow> string list \<Rightarrow> (nat \<times> string) list \<Rightarrow> 's world \<Rightarrow> (exn + unit) \<times> 's world" where
  "print_summary config sg_id public_ips [] w = (Inr (), w)"
| "print_summary config sg_id public_ips ((i, instance_id) # rest) w =
     (let w1 = py_print (''Instance ID: '' @ instance_id) w in
      case (if i < length public_ips
            then (case py_index public_ips i of
                    Inl e \<Rightarrow> Inl e
                  | Inr ip \<Rightarrow> Inr (py_print (''Public IP: '' @ ip) w1))
            else Inr w1) of
        Inl e \<Rightarrow> (Inl e, w1)
      | Inr w2 \<Rightarrow>
     (case subscript config ''instance_type'' of
        Inl e \<Rightarrow> (Inl e, w2)
      | Inr instance_type \<Rightarrow>
     (let w3 = py_print (''Instance Type: '' @ py_str instance_type) w2 in
      case subscript config ''ami_id'' of
        Inl e \<Rightarrow> (Inl e, w3)
      | Inr ami_id \<Rightarrow>
     (let w4 = py_print (''AMI ID: '' @ py_str ami_id) w3 in
      case subscript config ''key_pair_name'' of
        Inl e \<Rightarrow> (Inl e, w4)
      | Inr key_pair_name \<Rightarrow>
     (let w5 = py_print (''Key Pair: '' @ py_str key_pair_name) w4 in
      case subscript config ''security_group_name'' of
        Inl e \<Rightarrow> (Inl e, w5)
      | Inr security_group_name \<Rightarrow>
     (let w6 = py_print (''Security Group: '' @ py_str security_group_name
                         @ '' ('' @ sg_id @ '')'') w5;
          w7 = py_print (replicate 25 CHR ''-'') w6
      in print_summary config sg_id public_ips rest w7))))))"

definition provision_ec2_instance ::
  "'s ec2_client \<Rightarrow> document \<Rightarrow> string \<Rightarrow> int \<Rightarrow> 's world
     \<Rightarrow> (string list \<times> string list) outcome \<times> 's world" where
  "provision_ec2_instance c config sg_id now w =
     (case subscript config ''instance_count'' of
        Inl e \<Rightarrow> (Uncaught e, w)
      | Inr instance_count \<Rightarrow>
     (let w1 = py_print (newline @ ''Attempting to launch '' @ py_str instance_count
                         @ '' EC2 instance(s)...'') w in
      case launch_request config sg_id now of
        Inl e \<Rightarrow> launch_error e w1
      | Inr req \<Rightarrow>
     (case call (RunInstances req) (ec2_run_instances c req) w1 of
        (Inl e, w2) \<Rightarrow> launch_error e w2
      | (Inr instances, w2) \<Rightarrow>
     (let instance_ids = map InstanceId instances;
          w3 = py_print (''Launched instance(s) with IDs: '' @ join '', '' instance_ids) w2;
          w4 = py_print ''Waiting for instance(s) to enter 'running' state...'' w3
      in
      case call (WaitInstanceRunning instance_ids) (ec2_wait_instance_running c instance_ids) w4 of
        (Inl e, w5) \<Rightarrow> launch_error e w5
      | (Inr _, w5) \<Rightarrow>
     (let w6 = py_print ''Instance(s) are now running.'' w5 in
      case call (DescribeInstances instance_ids) (ec2_describe_instances c instance_ids) w6 of
        (Inl e, w7) \<Rightarrow> launch_error e w7
      | (Inr reservations, w7) \<Rightarrow>
     (let public_ips = collect_public_ips reservations;
          w8 = py_print (newline @ ''--- Provisioning Summary ---'') w7
      in
      case print_summary config sg_id public_ips (enumerate 0 instance_ids) w8 of
        (Inl e, w9) \<Rightarrow> launch_error e w9
      | (Inr _, w9) \<Rightarrow> (Return (instance_ids, public_ips), w9)))))))"

section \<open>cleanup_resources\<close>

text \<open>The first block (lines 151-159); \<open>Inl\<close> is an exception its handler does not catch.\<close>

definition terminate_block :: "'s ec2_client \<Rightarrow> string list \<Rightarrow> 's world \<Rightarrow> (exn + unit) \<times> 's world" where
  "terminate_block c instance_ids w =
     (if instance_ids \<noteq> [] then
        (let w1 = py_print (newline @ ''Terminating instance(s): '' @ join '', '' instance_ids @ ''...'') w in
         case call (TerminateInstances instance_ids) (ec2_terminate_instances c instance_ids) w1 of
           (Inl (ClientError e), w2) \<Rightarrow> (Inr (), py_print (''Error terminating instance(s): '' @ e) w2)
         | (Inl e, w2) \<Rightarrow> (Inl e, w2)
         | (Inr _, w2) \<Rightarrow>
        (case call (WaitInstanceTerminated instance_ids) (ec2_wait_instance_terminated c instance_ids) w2 of
           (Inl (ClientError e), w3) \<Rightarrow> (Inr (), py_print (''Error terminating instance(s): '' @ e) w3)
         | (Inl e, w3) \<Rightarrow> (Inl e, w3)
         | (Inr _, w3) \<Rightarrow> (Inr (), py_print ''Instance(s) terminated successfully.'' w3)))
      else (Inr (), w))"

text \<open>The second block (lines 161-170), with its ten-second sleep before the call.\<close>

definition delete_block :: "'s ec2_client \<Rightarrow> string \<Rightarrow> 's world \<Rightarrow> (exn + unit) \<times> 's world" where
  "delete_block c sg_id w =
     (if sg_id \<noteq> [] then
        (let w1 = py_print (''Deleting security group: '' @ sg_id @ ''...'') w;
             w2 = w1\<lparr>trace := trace w1 @ [Sleep 10]\<rparr>
         in
         case call (DeleteSecurityGroup sg_id) (ec2_delete_security_group c sg_id) w2 of
           (Inl (ClientError e), w3) \<Rightarrow>
             (Inr (),
              py_print ''You might need to manually delete the security group if instances were still attached.''
                (py_print (''Error deleting security group '' @ quote @ sg_id @ quote @ '': '' @ e) w3))
         | (Inl e, w3) \<Rightarrow> (Inl e, w3)
         | (Inr _, w3) \<Rightarrow>
             (Inr (), py_print (''Security group '' @ quote @ sg_id @ quote @ '' deleted successfully.'') w3))
      else (Inr (), w))"

definition cleanup_resources :: "'s ec2_client \<Rightarrow> string list \<Rightarrow> string \<Rightarrow> 's world \<Rightarrow> unit outcome \<times> 's world" where
  "cleanup_resources c instance_ids sg_id w =
     (case terminate_block c instance_ids w of
        (Inl e, w1) \<Rightarrow> (Uncaught e, w1)
      | (Inr _, w1) \<Rightarrow>
     (case delete_block c sg_id w1 of
        (Inl e, w2) \<Rightarrow> (Uncaught e, w2)
      | (Inr _, w2) \<Rightarrow> (Return (), w2)))"

section \<open>The script body\<close>

text \<open>Sequencing: whatever leaves a step by exit or exception leaves the script.\<close>

fun and_then ::
  "'a outcome \<times> 's world \<Rightarrow> ('a \<Rightarrow> 's world \<Rightarrow> 'b outcome \<times> 's world) \<Rightarrow> 'b outcome \<times> 's world" where
  "and_then (Return x, w) k = k x w"
| "and_then (Exit n, w) k = (Exit n, w)"
| "and_then (Uncaught e, w) k = (Uncaught e, w)"

text \<open>An expression that may raise, outside every handler.\<close>

fun eval_then :: "exn + 'a \<Rightarrow> 's world \<Rightarrow> ('a \<Rightarrow> 'b outcome \<times> 's world) \<Rightarrow> 'b outcome \<times> 's world" where
  "eval_then (Inl e) w k = (Uncaught e, w)"
| "eval_then (Inr x) w k = k x"

definition default_vpc_filter :: "(string \<times> string list) list" where
  "default_vpc_filter = [(''isDefault'', [''true''])]"

text \<open>Lines 184-193: the default network of the account.\<close>

definition resolve_default_vpc :: "'s ec2_client \<Rightarrow> 's world \<Rightarrow> string outcome \<times> 's world" where
  "resolve_default_vpc c w =
     (case call (DescribeVpcs default_vpc_filter) (ec2_describe_vpcs c default_vpc_filter) w of
        (Inr vpcs, w1) \<Rightarrow>
          if vpcs = [] then
            (Exit 1,
             py_print ''Error: No default VPC found. Please specify a VPC ID in config or create a default VPC.'' w1)
          else
            (case py_index vpcs 0 of
               Inl e \<Rightarrow> (Uncaught e, w1)
             | Inr v \<Rightarrow> (Return (VpcId v), py_print (''Using Default VPC ID: '' @ VpcId v) w1))
      | (Inl (ClientError e), w1) \<Rightarrow> (Exit 1, py_print (''Error getting default VPC: '' @ e) w1)
      | (Inl e, w1) \<Rightarrow> (Uncaught e, w1))"

text \<open>Lines 209-214, after both steps have returned.\<close>

definition cleanup_notice :: "string list \<Rightarrow> string \<Rightarrow> 's world \<Rightarrow> 's world" where
  "cleanup_notice provisioned_instance_ids security_group_id w =
     py_print ''Alternatively, you can uncomment and call `cleanup_resources` function (USE WITH CAUTION).''
    (py_print (''Security Group ID: '' @ security_group_id)
    (py_print (''Instance IDs: '' @ join '', '' provisioned_instance_ids)
    (py_print ''Please manually terminate the created EC2 instance(s) and delete the security group from the AWS console''
    (py_print (newline @ ''--- IMPORTANT: MANUAL CLEANUP REQUIRED ---'') w))))"

text \<open>
  The \<^verbatim>\<open>__main__\<close> block. \<open>boto3_client region\<close> is \<^verbatim>\<open>boto3.client('ec2', region_name=region)\<close>,
  which makes no remote call.
\<close>

definition main ::
  "(string \<Rightarrow> exn + document) \<Rightarrow> (pyval \<Rightarrow> exn + 's ec2_client) \<Rightarrow> int \<Rightarrow> 's world
     \<Rightarrow> unit outcome \<times> 's world" where
  "main fs boto3_client now w =
     and_then (load_config fs ''config.yaml'' w) (\<lambda>config w1.
     eval_then (subscript config ''aws_region'') w1 (\<lambda>region.
     eval_then (boto3_client region) w1 (\<lambda>c.
     and_then (resolve_default_vpc c w1) (\<lambda>default_vpc_id w2.
     eval_then (subscript config ''security_group_name'') w2 (\<lambda>sg_name.
     eval_then (subscript config ''security_group_description'') w2 (\<lambda>sg_description.
     and_then (create_security_group c default_vpc_id sg_name sg_description w2) (\<lambda>security_group_id w3.
     and_then (provision_ec2_instance c config security_group_id now w3) (\<lambda>(provisioned_instance_ids, provisioned_public_ips) w4.
       (Return (), cleanup_notice provisioned_instance_ids security_group_id w4)))))))))"

section \<open>Reading traces and results\<close>

text \<open>The requests of the \<open>RunInstances\<close> events of a trace, in order.\<close>

fun run_requests :: "event list \<Rightarrow> run_request list" where
  "run_requests [] = []"
| "run_requests (RunInstances r # evs) = r # run_requests evs"
| "run_requests (_ # evs) = run_requests evs"

text \<open>
  The specification's list of required keys, and the ones of them a document lacks.
  These two follow the specification's wording; the script has no such list.
\<close>

definition spec_required_fields :: "string list" where
  "spec_required_fields =
     [''aws_region'', ''ami_id'', ''instance_type'', ''instance_count'', ''key_pair_name'',
      ''security_group_name'', ''security_group_description'']"

fun spec_missing_fields :: "document \<Rightarrow> string list" where
  "spec_missing_fields (Mapping m) = filter (\<lambda>k. m k = None) spec_required_fields"
| "spec_missing_fields (Scalar _) = spec_required_fields"

section \<open>A concrete configuration and concrete providers\<close>

text \<open>
  Inputs on which the script is run below. The provider's state counts the calls it has
  answered.
\<close>

definition sample_config :: document where
  "sample_config = Mapping
     [''aws_region'' \<mapsto> PyStr ''us-east-1'',
      ''ami_id'' \<mapsto> PyStr ''ami-123'',
      ''instance_type'' \<mapsto> PyStr ''t2.micro'',
      ''instance_count'' \<mapsto> PyInt 3,
      ''key_pair_name'' \<mapsto> PyStr ''kp1'',
      ''security_group_name'' \<mapsto> PyStr ''sg-test'',
      ''security_group_description'' \<mapsto> PyStr ''test'']"

definition incomplete_config :: document where
  "incomplete_config = Mapping [''aws_region'' \<mapsto> PyStr ''us-east-1'']"

definition fresh_world :: "nat world" where
  "fresh_world = \<lparr>provider = 0, trace = [], stdout = []\<rparr>"

definition sample_request :: run_request where
  "sample_request =
     \<lparr>ImageId = PyStr ''ami-123'', MinCount = 1, MaxCount = PyInt 3,
      InstanceType = PyStr ''t2.micro'', KeyName = PyStr ''kp1'',
      SecurityGroupIds = [''sg-1''],
      TagSpecifications =
        [\<lparr>ResourceType = ''instance'',
          Tags = [(''Name'', ''Automated-Instance-1730000000''),
                  (''Project'', ''Python-DevOps-Provisioner'')]\<rparr>]\<rparr>"

text \<open>
  Everything succeeds: two default networks, the rule set exists, three instances are
  launched, and two of them have a public address.
\<close>

definition sample_client :: "nat ec2_client" where
  "sample_client =
     \<lparr>ec2_describe_vpcs = (\<lambda>filters s. (Inr [\<lparr>VpcId = ''vpc-0a''\<rparr>, \<lparr>VpcId = ''vpc-0b''\<rparr>], Suc s)),
      ec2_describe_security_groups = (\<lambda>names s. (Inr [\<lparr>GroupId = ''sg-0''\<rparr>], Suc s)),
      ec2_create_security_group = (\<lambda>name description vpc_id s. (Inr ''sg-1'', Suc s)),
      ec2_authorize_security_group_ingress = (\<lambda>group_id permissions s. (Inr (), Suc s)),
      ec2_run_instances = (\<lambda>req s.
        (Inr [\<lparr>InstanceId = ''i-1'', PublicIpAddress = None\<rparr>,
              \<lparr>InstanceId = ''i-2'', PublicIpAddress = None\<rparr>,
              \<lparr>InstanceId = ''i-3'', PublicIpAddress = None\<rparr>], Suc s)),
      ec2_wait_instance_running = (\<lambda>ids s. (Inr (), Suc s)),
      ec2_describe_instances = (\<lambda>ids s.
        (Inr [\<lparr>Instances =
                [\<lparr>InstanceId = ''i-1'', PublicIpAddress = Some ''203.0.113.1''\<rparr>,
                 \<lparr>InstanceId = ''i-2'', PublicIpAddress = Some ''203.0.113.2''\<rparr>,
                 \<lparr>InstanceId = ''i-3'', PublicIpAddress = None\<rparr>]\<rparr>], Suc s)),
      ec2_terminate_instances = (\<lambda>ids s. (Inr (), Suc s)),
      ec2_wait_instance_terminated = (\<lambda>ids s. (Inr (), Suc s)),
      ec2_delete_security_group = (\<lambda>group_id s. (Inr (), Suc s))\<rparr>"

text \<open>No default network.\<close>

definition no_vpc_client :: "nat ec2_client" where
  "no_vpc_client = sample_client\<lparr>ec2_describe_vpcs := (\<lambda>filters s. (Inr [], Suc s))\<rparr>"

text \<open>The rule set is reported missing, in the words the script looks for.\<close>

definition new_group_client :: "nat ec2_client" where
  "new_group_client = sample_client
     \<lparr>ec2_describe_security_groups :=
        (\<lambda>names s. (Inl (ClientError ''group DoesNotExist''), Suc s))\<rparr>"

text \<open>As before, and the second ingress rule is refused.\<close>

definition rule_refusing_client :: "nat ec2_client" where
  "rule_refusing_client = new_group_client
     \<lparr>ec2_authorize_security_group_ingress :=
        (\<lambda>group_id permissions s.
           if permissions = [http_rule] then (Inl (ClientError ''rule refused''), Suc s)
           else (Inr (), Suc s))\<rparr>"

text \<open>The launch is refused for its key pair.\<close>

definition bad_key_client :: "nat ec2_client" where
  "bad_key_client = sample_client
     \<lparr>ec2_run_instances := (\<lambda>req s. (Inl (ClientError ''InvalidKeyPair.NotFound''), Suc s))\<rparr>"

text \<open>
  The provider has capacity for one instance only: within \<open>MinCount\<close> and \<open>MaxCount\<close> of
  the request it launches one.
\<close>

definition scarce_client :: "nat ec2_client" where
  "scarce_client = sample_client
     \<lparr>ec2_run_instances := (\<lambda>req s. (Inr [\<lparr>InstanceId = ''i-1'', PublicIpAddress = None\<rparr>], Suc s)),
      ec2_describe_instances := (\<lambda>ids s.
        (Inr [\<lparr>Instances = [\<lparr>InstanceId = ''i-1'', PublicIpAddress = Some ''203.0.113.1''\<rparr>]\<rparr>],
         Suc s))\<rparr>"

text \<open>The wait for termination gives up, as a boto3 waiter does: with \<open>WaiterError\<close>.\<close>

definition stuck_waiter_client :: "nat ec2_client" where
  "stuck_waiter_client = sample_client
     \<lparr>ec2_wait_instance_terminated :=
        (\<lambda>ids s. (Inl (WaiterError ''Max attempts exceeded''), Suc s))\<rparr>"

text \<open>Termination and deletion are both refused by the service.\<close>

definition failing_cleanup_client :: "nat ec2_client" where
  "failing_cleanup_client = sample_client
     \<lparr>ec2_terminate_instances := (\<lambda>ids s. (Inl (ClientError ''UnauthorizedOperation''), Suc s)),
      ec2_delete_security_group := (\<lambda>group_id s. (Inl (ClientError ''DependencyViolation''), Suc s))\<rparr>"

text \<open>
  The reply of EC2 to a lookup by name of a rule set that does not exist, as
  \<^verbatim>\<open>str(e)\<close> gives it: error code \<^verbatim>\<open>InvalidGroup.NotFound\<close>.
\<close>

definition missing_group_reply :: string where
  "missing_group_reply =
     ''An error occurred (InvalidGroup.NotFound) when calling the DescribeSecurityGroups operation: The security group 'sg-test' does not exist in default VPC ''
     @ quote @ ''vpc-0a'' @ quote"

definition missing_group_client :: "nat ec2_client" where
  "missing_group_client = sample_client
     \<lparr>ec2_describe_security_groups :=
        (\<lambda>names s. (Inl (ClientError missing_group_reply), Suc s))\<rparr>"

text \<open>
  A configuration whose key pair is named \<^verbatim>\<open>InvalidAMIID.NotFound\<close>, and the reply of EC2
  to a launch with a key pair of that name that does not exist.
\<close>

definition odd_key_config :: document where
  "odd_key_config = Mapping
     [''aws_region'' \<mapsto> PyStr ''us-east-1'',
      ''ami_id'' \<mapsto> PyStr ''ami-123'',
      ''instance_type'' \<mapsto> PyStr ''t2.micro'',
      ''instance_count'' \<mapsto> PyInt 3,
      ''key_pair_name'' \<mapsto> PyStr ''InvalidAMIID.NotFound'',
      ''security_group_name'' \<mapsto> PyStr ''sg-test'',
      ''security_group_description'' \<mapsto> PyStr ''test'']"

definition missing_key_reply :: string where
  "missing_key_reply =
     ''An error occurred (InvalidKeyPair.NotFound) when calling the RunInstances operation: The key pair 'InvalidAMIID.NotFound' does not exist''"

definition missing_key_client :: "nat ec2_client" where
  "missing_key_client = sample_client
     \<lparr>ec2_run_instances := (\<lambda>req s. (Inl (ClientError missing_key_reply), Suc s))\<rparr>"

section \<open>Basic facts\<close>

lemma provider_py_print [simp]: "provider (py_print s w) = provider w"
  and trace_py_print [simp]: "trace (py_print s w) = trace w"
  and stdout_py_print [simp]: "stdout (py_print s w) = stdout w @ [s]"
  by (simp_all add: py_print_def)

text \<open>\<open>py_in\<close> is the substring test.\<close>

lemma py_in_iff: "py_in pat s \<longleftrightarrow> (\<exists>ps ss. s = ps @ pat @ ss)"
proof (induction s)
  case Nil
  then show ?case by auto
next
  case (Cons c cs)
  show ?case
  proof
    assume "py_in pat (c # cs)"
    then consider "take (length pat) (c # cs) = pat" | "py_in pat cs" by auto
    then show "\<exists>ps ss. c # cs = ps @ pat @ ss"
    proof cases
      case 1
      then have "c # cs = [] @ pat @ drop (length pat) (c # cs)"
        by (metis append_Nil append_take_drop_id)
      then show ?thesis by blast
    next
      case 2
      then obtain ps ss where "cs = ps @ pat @ ss" using Cons.IH by blast
      then have "c # cs = (c # ps) @ pat @ ss" by simp
      then show ?thesis by blast
    qed
  next
    assume "\<exists>ps ss. c # cs = ps @ pat @ ss"
    then obtain ps ss where eq: "c # cs = ps @ pat @ ss" by blast
    show "py_in pat (c # cs)"
    proof (cases ps)
      case Nil
      then have "take (length pat) (c # cs) = pat" using eq by simp
      then show ?thesis by simp
    next
      case (Cons p ps')
      then have "cs = ps' @ pat @ ss" using eq by simp
      then have "py_in pat cs" using Cons.IH by blast
      then show ?thesis by simp
    qed
  qed
qed

lemma run_requests_append [simp]: "run_requests (xs @ ys) = run_requests xs @ run_requests ys"
  by (induction xs rule: run_requests.induct) simp_all

lemma sample_config_fields:
  "subscript sample_config ''aws_region'' = Inr (PyStr ''us-east-1'')"
  "subscript sample_config ''ami_id'' = Inr (PyStr ''ami-123'')"
  "subscript sample_config ''instance_type'' = Inr (PyStr ''t2.micro'')"
  "subscript sample_config ''instance_count'' = Inr (PyInt 3)"
  "subscript sample_config ''key_pair_name'' = Inr (PyStr ''kp1'')"
  "subscript sample_config ''security_group_name'' = Inr (PyStr ''sg-test'')"
  "subscript sample_config ''security_group_description'' = Inr (PyStr ''test'')"
  by (simp_all add: sample_config_def)

lemma str_int_samples:
  "str_int 3 = ''3''"
  "str_int 1730000000 = ''1730000000''"
  by (simp_all add: str_int_def str_nat.simps digit_chars_def)

lemma sample_request_built:
  "launch_request sample_config ''sg-1'' 1730000000 = Inr sample_request"
  by (simp add: launch_request_def sample_config_fields sample_request_def str_int_samples)

subsection \<open>The handlers\<close>

lemma creation_error_world [simp]:
  "provider (snd (creation_error e w)) = provider w"
  "trace (snd (creation_error e w)) = trace w"
  by (simp_all add: creation_error_def split: exn.splits)

lemma and_then_creation_error [simp]:
  "exit_status (fst (and_then (creation_error e w) k)) = 1"
  "snd (and_then (creation_error e w) k) = snd (creation_error e w)"
  by (simp_all add: creation_error_def split: exn.splits)

lemma launch_error_fatal [simp]: "exit_status (fst (launch_error e w)) = 1"
  by (simp add: launch_error_def Let_def split: exn.splits)

lemma launch_error_world [simp]:
  "provider (snd (launch_error e w)) = provider w"
  "trace (snd (launch_error e w)) = trace w"
  by (simp_all add: launch_error_def Let_def split: exn.splits)

subsection \<open>The launch request and the summary loop\<close>

lemma launch_request_fields:
  assumes "launch_request config sg_id now = Inr req"
  shows "subscript config ''ami_id'' = Inr (ImageId req)"
    and "subscript config ''instance_count'' = Inr (MaxCount req)"
    and "subscript config ''instance_type'' = Inr (InstanceType req)"
    and "subscript config ''key_pair_name'' = Inr (KeyName req)"
  using assms by (auto simp: launch_request_def split: sum.splits)

lemma print_summary_world [simp]:
  "provider (snd (print_summary config sg_id ips xs w)) = provider w"
  "trace (snd (print_summary config sg_id ips xs w)) = trace w"
  by (induction config sg_id ips xs w rule: print_summary.induct;
      simp add: Let_def py_index_def split: sum.splits)+

text \<open>
  With the four keys it reads present, the loop prints one block per instance and
  returns; the address line is there for the indices below the number of addresses.
\<close>

lemma print_summary_lines:
  assumes "subscript config ''instance_type'' = Inr instance_type"
    and "subscript config ''ami_id'' = Inr ami_id"
    and "subscript config ''key_pair_name'' = Inr key_pair_name"
    and "subscript config ''security_group_name'' = Inr sg_name"
  shows "print_summary config sg_id public_ips xs w =
           (Inr (),
            w\<lparr>stdout := stdout w @
                concat (map (\<lambda>(i, instance_id).
                  [''Instance ID: '' @ instance_id]
                  @ (if i < length public_ips then [''Public IP: '' @ public_ips ! i] else [])
                  @ [''Instance Type: '' @ py_str instance_type,
                     ''AMI ID: '' @ py_str ami_id,
                     ''Key Pair: '' @ py_str key_pair_name,
                     ''Security Group: '' @ py_str sg_name @ '' ('' @ sg_id @ '')'',
                     replicate 25 CHR ''-'']) xs)\<rparr>)"
  using assms
proof (induction xs arbitrary: w)
  case Nil
  then show ?case by simp
next
  case (Cons x xs)
  obtain i instance_id where x: "x = (i, instance_id)" by (cases x)
  show ?case
    using Cons.prems
    by (simp add: x Cons.IH[OF Cons.prems] py_index_def py_print_def)
qed

lemma length_instance_public_ips:
  "length (instance_public_ips is) = length (filter (\<lambda>i. PublicIpAddress i \<noteq> None) is)"
  by (induction "is") (auto split: option.splits)

lemma length_collect_public_ips:
  "length (collect_public_ips rs) =
     length (filter (\<lambda>i. PublicIpAddress i \<noteq> None) (concat (map Instances rs)))"
  by (induction rs) (simp_all add: length_instance_public_ips)

text \<open>The run in which the launch, the wait and the describe call all succeed.\<close>

lemma provision_succeeds:
  assumes req: "launch_request config sg_id now = Inr req"
    and name: "subscript config ''security_group_name'' = Inr sg_name"
    and launch: "ec2_run_instances c req (provider w) = (Inr instances, s1)"
    and wait: "ec2_wait_instance_running c (map InstanceId instances) s1 = (Inr (), s2)"
    and describe: "ec2_describe_instances c (map InstanceId instances) s2 = (Inr reservations, s3)"
    and ids: "instance_ids = map InstanceId instances"
    and ips: "public_ips = collect_public_ips reservations"
  shows "provision_ec2_instance c config sg_id now w =
      (Return (instance_ids, public_ips),
       snd (print_summary config sg_id public_ips (enumerate 0 instance_ids)
         (py_print (newline @ ''--- Provisioning Summary ---'')
           ((py_print ''Instance(s) are now running.''
             ((py_print ''Waiting for instance(s) to enter 'running' state...''
               (py_print (''Launched instance(s) with IDs: '' @ join '', '' instance_ids)
                 ((py_print (newline @ ''Attempting to launch '' @ py_str (MaxCount req)
                     @ '' EC2 instance(s)...'') w)
                   \<lparr>provider := s1, trace := trace w @ [RunInstances req]\<rparr>)))
               \<lparr>provider := s2,
                 trace := trace w @ [RunInstances req, WaitInstanceRunning instance_ids]\<rparr>))
             \<lparr>provider := s3,
               trace := trace w @ [RunInstances req, WaitInstanceRunning instance_ids,
                                   DescribeInstances instance_ids]\<rparr>))))"
proof -
  note fields = launch_request_fields[OF req]
  note summary = print_summary_lines[OF fields(3) fields(1) fields(4) name]
  show ?thesis
    using launch wait describe fields(2) req
    by (simp add: provision_ec2_instance_def call_def Let_def summary ids ips)
qed

subsection \<open>The two blocks of the reclaimer\<close>

text \<open>
  The termination block, case by case: it is skipped without identifiers; a
  \<open>ClientError\<close> of the terminate call or of the wait is printed and ends the block;
  otherwise the success line is printed.
\<close>

lemma terminate_block_caught:
  assumes
    "instance_ids = [] \<and> s1 = provider w \<and> calls = [] \<and> lines = []
     \<or> instance_ids \<noteq> []
        \<and> ec2_terminate_instances c instance_ids (provider w) = (Inl (ClientError msg), s1)
        \<and> calls = [TerminateInstances instance_ids]
        \<and> lines = [newline @ ''Terminating instance(s): '' @ join '', '' instance_ids @ ''...'',
                    ''Error terminating instance(s): '' @ msg]
     \<or> instance_ids \<noteq> []
        \<and> (\<exists>s. ec2_terminate_instances c instance_ids (provider w) = (Inr (), s)
               \<and> ec2_wait_instance_terminated c instance_ids s = (Inl (ClientError msg), s1))
        \<and> calls = [TerminateInstances instance_ids, WaitInstanceTerminated instance_ids]
        \<and> lines = [newline @ ''Terminating instance(s): '' @ join '', '' instance_ids @ ''...'',
                    ''Error terminating instance(s): '' @ msg]
     \<or> instance_ids \<noteq> []
        \<and> (\<exists>s. ec2_terminate_instances c instance_ids (provider w) = (Inr (), s)
               \<and> ec2_wait_instance_terminated c instance_ids s = (Inr (), s1))
        \<and> calls = [TerminateInstances instance_ids, WaitInstanceTerminated instance_ids]
        \<and> lines = [newline @ ''Terminating instance(s): '' @ join '', '' instance_ids @ ''...'',
                    ''Instance(s) terminated successfully.'']"
  shows "terminate_block c instance_ids w =
           (Inr (), w\<lparr>provider := s1, trace := trace w @ calls, stdout := stdout w @ lines\<rparr>)"
  using assms
  by (elim disjE conjE exE) (simp_all add: terminate_block_def call_def Let_def py_print_def)

text \<open>A handler for \<open>ClientError\<close> lets every other class through.\<close>

lemma terminate_block_escapes:
  assumes "instance_ids \<noteq> []" and "\<forall>msg. e \<noteq> ClientError msg"
  shows "ec2_terminate_instances c instance_ids (provider w) = (Inl e, s2) \<Longrightarrow>
         terminate_block c instance_ids w =
           (Inl e,
            w\<lparr>provider := s2,
              trace := trace w @ [TerminateInstances instance_ids],
              stdout := stdout w @
                [newline @ ''Terminating instance(s): '' @ join '', '' instance_ids @ ''...'']\<rparr>)"
    and "ec2_terminate_instances c instance_ids (provider w) = (Inr (), s) \<Longrightarrow>
         ec2_wait_instance_terminated c instance_ids s = (Inl e, s2) \<Longrightarrow>
         terminate_block c instance_ids w =
           (Inl e,
            w\<lparr>provider := s2,
              trace := trace w @ [TerminateInstances instance_ids, WaitInstanceTerminated instance_ids],
              stdout := stdout w @
                [newline @ ''Terminating instance(s): '' @ join '', '' instance_ids @ ''...'']\<rparr>)"
  using assms
  by (cases e; simp add: terminate_block_def call_def Let_def py_print_def)+

lemma delete_block_cases:
  assumes "sg_id \<noteq> []"
  shows "ec2_delete_security_group c sg_id (provider w) = (Inr (), s2) \<Longrightarrow>
         delete_block c sg_id w =
           (Inr (),
            w\<lparr>provider := s2,
              trace := trace w @ [Sleep 10, DeleteSecurityGroup sg_id],
              stdout := stdout w @
                [''Deleting security group: '' @ sg_id @ ''...'',
                 ''Security group '' @ quote @ sg_id @ quote @ '' deleted successfully.'']\<rparr>)"
    and "ec2_delete_security_group c sg_id (provider w) = (Inl (ClientError msg), s2) \<Longrightarrow>
         delete_block c sg_id w =
           (Inr (),
            w\<lparr>provider := s2,
              trace := trace w @ [Sleep 10, DeleteSecurityGroup sg_id],
              stdout := stdout w @
                [''Deleting security group: '' @ sg_id @ ''...'',
                 ''Error deleting security group '' @ quote @ sg_id @ quote @ '': '' @ msg,
                 ''You might need to manually delete the security group if instances were still attached.'']\<rparr>)"
  using assms
  by (simp_all add: delete_block_def call_def Let_def py_print_def)

lemma delete_block_escapes:
  assumes "sg_id \<noteq> []" and "\<forall>msg. e \<noteq> ClientError msg"
    and "ec2_delete_security_group c sg_id (provider w) = (Inl e, s2)"
  shows "delete_block c sg_id w =
           (Inl e,
            w\<lparr>provider := s2,
              trace := trace w @ [Sleep 10, DeleteSecurityGroup sg_id],
              stdout := stdout w @ [''Deleting security group: '' @ sg_id @ ''...'']\<rparr>)"
  using assms
  by (cases e; simp add: delete_block_def call_def Let_def py_print_def)

subsection \<open>The script up to the rule set\<close>

lemma main_reaches_security_group:
  assumes cfg: "fs ''config.yaml'' = Inr config"
    and region: "subscript config ''aws_region'' = Inr region"
    and client: "boto3_client region = Inr c"
    and vpcs: "ec2_describe_vpcs c default_vpc_filter (provider w) = (Inr (v # vs), s0)"
    and name: "subscript config ''security_group_name'' = Inr sg_name"
    and descr: "subscript config ''security_group_description'' = Inr sg_description"
  shows "main fs boto3_client now w =
      and_then (create_security_group c (VpcId v) sg_name sg_description
                 (py_print (''Using Default VPC ID: '' @ VpcId v)
                    (w\<lparr>provider := s0, trace := trace w @ [DescribeVpcs default_vpc_filter]\<rparr>)))
        (\<lambda>security_group_id w3.
           and_then (provision_ec2_instance c config security_group_id now w3)
             (\<lambda>(provisioned_instance_ids, provisioned_public_ips) w4.
                (Return (), cleanup_notice provisioned_instance_ids security_group_id w4)))"
  using assms
  by (simp add: main_def load_config_def resolve_default_vpc_def call_def py_index_def)

section \<open>The claims\<close>

subsection \<open>C1: the launch request\<close>

text \<open>
  C1 as stated does not hold. With \<open>instance_count = 3\<close> the one request the script sends
  has \<open>MinCount = 1\<close>, fewer than 3, and when the provider launches a single instance,
  as that request allows, the script succeeds and returns one identifier, not three.
\<close>

theorem launch_minimum_is_one_counterexample:
  "subscript sample_config ''instance_count'' = Inr (PyInt 3)
   \<and> map MinCount (run_requests (trace (snd
         (provision_ec2_instance scarce_client sample_config ''sg-1'' 1730000000 fresh_world)))) = [1]
   \<and> fst (provision_ec2_instance scarce_client sample_config ''sg-1'' 1730000000 fresh_world) =
       Return ([''i-1''], [''203.0.113.1''])"
proof -
  have "provision_ec2_instance scarce_client sample_config ''sg-1'' 1730000000 fresh_world =
      (Return ([''i-1''], [''203.0.113.1'']),
       snd (print_summary sample_config ''sg-1'' [''203.0.113.1''] (enumerate 0 [''i-1''])
         (py_print (newline @ ''--- Provisioning Summary ---'')
           ((py_print ''Instance(s) are now running.''
             ((py_print ''Waiting for instance(s) to enter 'running' state...''
               (py_print (''Launched instance(s) with IDs: '' @ join '', '' [''i-1''])
                 ((py_print (newline @ ''Attempting to launch '' @ py_str (MaxCount sample_request)
                     @ '' EC2 instance(s)...'') fresh_world)
                   \<lparr>provider := 1, trace := trace fresh_world @ [RunInstances sample_request]\<rparr>)))
               \<lparr>provider := 2,
                 trace := trace fresh_world @ [RunInstances sample_request, WaitInstanceRunning [''i-1'']]\<rparr>))
             \<lparr>provider := 3,
               trace := trace fresh_world @ [RunInstances sample_request, WaitInstanceRunning [''i-1''],
                                   DescribeInstances [''i-1'']]\<rparr>))))"
    by (rule provision_succeeds
          [OF sample_request_built sample_config_fields(6),
           where instances = "[\<lparr>InstanceId = ''i-1'', PublicIpAddress = None\<rparr>]"
             and reservations =
               "[\<lparr>Instances = [\<lparr>InstanceId = ''i-1'', PublicIpAddress = Some ''203.0.113.1''\<rparr>]\<rparr>]"])
       (simp_all add: scarce_client_def sample_client_def fresh_world_def)
  then show ?thesis
    by (simp only: fst_conv snd_conv print_summary_world)
       (simp add: sample_config_fields fresh_world_def sample_request_def)
qed

text \<open>
  C1, as amended. For every configuration that has the four launch fields (\<open>ami_id\<close>,
  \<open>instance_count = n\<close>, \<open>instance_type\<close>, \<open>key_pair_name\<close>), the instance provisioner
  makes exactly one run-instances call, whatever the provider answers: a single batch
  request with \<open>MinCount = 1\<close> and \<open>MaxCount = n\<close>. When the configuration has
  \<open>security_group_name\<close> as well (the summary reads it; every validated configuration
  has it) and the launch, the running-wait and the describe call succeed, the
  provisioner returns the identifiers of the instances listed in the provider's
  response, in that order: as many as the provider launched.
\<close>

theorem single_batch_launch_request:
  assumes ami: "subscript config ''ami_id'' = Inr ami_id"
    and count: "subscript config ''instance_count'' = Inr (PyInt n)"
    and type: "subscript config ''instance_type'' = Inr instance_type"
    and key: "subscript config ''key_pair_name'' = Inr key_pair_name"
    and req: "req = \<lparr>ImageId = ami_id, MinCount = 1, MaxCount = PyInt n,
                     InstanceType = instance_type, KeyName = key_pair_name,
                     SecurityGroupIds = [sg_id],
                     TagSpecifications =
                       [\<lparr>ResourceType = ''instance'',
                         Tags = [(''Name'', ''Automated-Instance-'' @ str_int now),
                                 (''Project'', ''Python-DevOps-Provisioner'')]\<rparr>]\<rparr>"
  shows "run_requests (trace (snd (provision_ec2_instance c config sg_id now w))) =
           run_requests (trace w) @ [req]
       \<and> (\<forall>instances s1 s2 reservations s3 sg_name.
             ec2_run_instances c req (provider w) = (Inr instances, s1)
           \<and> ec2_wait_instance_running c (map InstanceId instances) s1 = (Inr (), s2)
           \<and> ec2_describe_instances c (map InstanceId instances) s2 = (Inr reservations, s3)
           \<and> subscript config ''security_group_name'' = Inr sg_name
           \<longrightarrow> fst (provision_ec2_instance c config sg_id now w) =
                 Return (map InstanceId instances, collect_public_ips reservations))"
proof -
  have built: "launch_request config sg_id now = Inr req"
    using ami count type key by (simp add: launch_request_def req)
  have calls: "run_requests (trace (snd (provision_ec2_instance c config sg_id now w))) =
                 run_requests (trace w) @ [req]"
    using count built
    by (simp add: provision_ec2_instance_def call_def Let_def split_beta sum.case_eq_if)
  have result: "fst (provision_ec2_instance c config sg_id now w) =
                  Return (map InstanceId instances, collect_public_ips reservations)"
    if "ec2_run_instances c req (provider w) = (Inr instances, s1)"
      and "ec2_wait_instance_running c (map InstanceId instances) s1 = (Inr (), s2)"
      and "ec2_describe_instances c (map InstanceId instances) s2 = (Inr reservations, s3)"
      and "subscript config ''security_group_name'' = Inr sg_name"
    for instances s1 s2 reservations s3 sg_name
    by (simp add: provision_succeeds[OF built that(4) that(1) that(2) that(3) refl refl])
  show ?thesis
    using calls result by blast
qed

text \<open>The amended C1 on the sample configuration, where the provider launches all three.\<close>

theorem single_batch_launch_request_witness:
  "run_requests (trace (snd
      (provision_ec2_instance sample_client sample_config ''sg-1'' 1730000000 fresh_world))) =
     [\<lparr>ImageId = PyStr ''ami-123'', MinCount = 1, MaxCount = PyInt 3,
       InstanceType = PyStr ''t2.micro'', KeyName = PyStr ''kp1'',
       SecurityGroupIds = [''sg-1''],
       TagSpecifications =
         [\<lparr>ResourceType = ''instance'',
           Tags = [(''Name'', ''Automated-Instance-1730000000''),
                   (''Project'', ''Python-DevOps-Provisioner'')]\<rparr>]\<rparr>]
   \<and> fst (provision_ec2_instance sample_client sample_config ''sg-1'' 1730000000 fresh_world) =
       Return ([''i-1'', ''i-2'', ''i-3''], [''203.0.113.1'', ''203.0.113.2''])"
proof -
  note inst = single_batch_launch_request
    [OF sample_config_fields(2) sample_config_fields(4) sample_config_fields(3)
        sample_config_fields(5) refl,
     where sg_id = "''sg-1''" and now = 1730000000 and c = sample_client and w = fresh_world]
  have calls: "run_requests (trace (snd
      (provision_ec2_instance sample_client sample_config ''sg-1'' 1730000000 fresh_world))) =
     [\<lparr>ImageId = PyStr ''ami-123'', MinCount = 1, MaxCount = PyInt 3,
       InstanceType = PyStr ''t2.micro'', KeyName = PyStr ''kp1'',
       SecurityGroupIds = [''sg-1''],
       TagSpecifications =
         [\<lparr>ResourceType = ''instance'',
           Tags = [(''Name'', ''Automated-Instance-1730000000''),
                   (''Project'', ''Python-DevOps-Provisioner'')]\<rparr>]\<rparr>]"
    using inst by (simp add: fresh_world_def str_int_samples)
  have "fst (provision_ec2_instance sample_client sample_config ''sg-1'' 1730000000 fresh_world) =
      Return (map InstanceId
                [\<lparr>InstanceId = ''i-1'', PublicIpAddress = None\<rparr>,
                 \<lparr>InstanceId = ''i-2'', PublicIpAddress = None\<rparr>,
                 \<lparr>InstanceId = ''i-3'', PublicIpAddress = None\<rparr>],
              collect_public_ips
                [\<lparr>Instances =
                   [\<lparr>InstanceId = ''i-1'', PublicIpAddress = Some ''203.0.113.1''\<rparr>,
                    \<lparr>InstanceId = ''i-2'', PublicIpAddress = Some ''203.0.113.2''\<rparr>,
                    \<lparr>InstanceId = ''i-3'', PublicIpAddress = None\<rparr>]\<rparr>])"
    by (rule inst[THEN conjunct2, rule_format, where ?s1.0 = 1 and ?s2.0 = 2 and ?s3.0 = 3
                 and sg_name = "PyStr ''sg-test''"])
       (simp add: sample_client_def fresh_world_def sample_config_fields)
  then show ?thesis
    using calls by simp
qed

subsection \<open>C2: the configuration loader\<close>

text \<open>
  C2 as stated does not hold. A document that lacks six of the seven required fields
  is loaded like any other: the loader returns it and prints nothing.
\<close>

theorem loader_accepts_missing_fields_counterexample:
  "spec_missing_fields incomplete_config =
     [''ami_id'', ''instance_type'', ''instance_count'', ''key_pair_name'',
      ''security_group_name'', ''security_group_description'']
   \<and> load_config (\<lambda>path. Inr incomplete_config) ''config.yaml'' fresh_world =
       (Return incomplete_config, fresh_world)"
  by (simp add: incomplete_config_def spec_required_fields_def load_config_def)

text \<open>
  C2, as amended. The configuration loader checks no field: whenever the file opens and
  parses it returns the parsed document unchanged and prints nothing, whichever fields
  are absent. It exits (with status 1, after a message) if and only if the file is not
  found or is not well-formed YAML.
\<close>

theorem loader_checks_no_field:
  "(fs config_path = Inr config \<longrightarrow> load_config fs config_path w = (Return config, w))
   \<and> ((\<exists>n. fst (load_config fs config_path w) = Exit n) \<longleftrightarrow>
        (fs config_path = Inl FileNotFoundError \<or> (\<exists>msg. fs config_path = Inl (YAMLError msg))))
   \<and> (\<forall>n. fst (load_config fs config_path w) = Exit n \<longrightarrow> n = 1)"
  by (auto simp: load_config_def split: sum.splits exn.splits)

theorem loader_checks_no_field_witness:
  "load_config (\<lambda>path. Inr sample_config) ''config.yaml'' fresh_world = (Return sample_config, fresh_world)
   \<and> fst (load_config (\<lambda>path. Inl FileNotFoundError) ''config.yaml'' fresh_world) = Exit 1"
proof -
  have "load_config (\<lambda>path. Inr sample_config) ''config.yaml'' fresh_world =
          (Return sample_config, fresh_world)"
    using loader_checks_no_field[of "\<lambda>path. Inr sample_config" "''config.yaml''" sample_config fresh_world]
    by simp
  moreover have "\<exists>n. fst (load_config (\<lambda>path. Inl FileNotFoundError) ''config.yaml'' fresh_world) = Exit n"
    using loader_checks_no_field[of "\<lambda>path. Inl FileNotFoundError" "''config.yaml''" sample_config fresh_world]
    by simp
  then have "fst (load_config (\<lambda>path. Inl FileNotFoundError) ''config.yaml'' fresh_world) = Exit 1"
    using loader_checks_no_field[of "\<lambda>path. Inl FileNotFoundError" "''config.yaml''" sample_config fresh_world]
    by blast
  ultimately show ?thesis by simp
qed

subsection \<open>C3: an existing rule set is reused\<close>

text \<open>
  C3. For every rule-set name that the lookup by name finds, the firewall provisioner
  makes that one lookup and no other call (no create-rule-set call, no authorize-ingress
  call), and returns the identifier of the rule set found, unchanged.
\<close>

theorem existing_group_reused:
  assumes "ec2_describe_security_groups c [sg_name] (provider w) = (Inr (g # gs), s')"
  shows "create_security_group c vpc_id sg_name sg_description w =
           (Return (GroupId g),
            w\<lparr>provider := s',
              trace := trace w @ [DescribeSecurityGroups [sg_name]],
              stdout := stdout w @
                [''Checking for existing security group: '' @ py_str sg_name @ ''...'',
                 ''Security Group '' @ quote @ py_str sg_name @ quote
                   @ '' already exists with ID: '' @ GroupId g]\<rparr>)"
  using assms
  by (simp add: create_security_group_def call_def py_print_def py_index_def)

theorem existing_group_reused_witness:
  "create_security_group sample_client ''vpc-0a'' (PyStr ''sg-test'') (PyStr ''test'') fresh_world =
     (Return ''sg-0'',
      \<lparr>provider = 1,
       trace = [DescribeSecurityGroups [PyStr ''sg-test'']],
       stdout = [''Checking for existing security group: sg-test...'',
                 ''Security Group 'sg-test' already exists with ID: sg-0'']\<rparr>)"
  using existing_group_reused
    [where c = sample_client and sg_name = "PyStr ''sg-test''" and w = fresh_world
       and g = "\<lparr>GroupId = ''sg-0''\<rparr>" and gs = "[]" and s' = 1
       and vpc_id = "''vpc-0a''" and sg_description = "PyStr ''test''"]
  by (simp add: sample_client_def fresh_world_def quote_def)

subsection \<open>C4: a missing rule set is created with its two rules\<close>

text \<open>
  C4. For a rule-set name for which the lookup signals not found, the firewall
  provisioner should create one rule set in the resolved network, authorize TCP port 22
  and TCP port 80 from \<^verbatim>\<open>0.0.0.0/0\<close> on it, and return its identifier. The script
  recognises the not-found signal by the text \<^verbatim>\<open>DoesNotExist\<close> only (line 32). On the
  reply EC2 gives for a missing rule set, whose text has \<^verbatim>\<open>InvalidGroup.NotFound\<close> and
  \<^verbatim>\<open>does not exist\<close> instead, it takes the other branch: it prints the lookup error and
  exits with status 1, and the lookup is the only call it has made. No rule set is
  created and no rule is authorized.
\<close>

theorem missing_group_reply_is_fatal:
  "py_in ''DoesNotExist'' missing_group_reply = False
   \<and> create_security_group missing_group_client ''vpc-0a'' (PyStr ''sg-test'') (PyStr ''test'') fresh_world =
       (Exit 1,
        \<lparr>provider = 1,
         trace = [DescribeSecurityGroups [PyStr ''sg-test'']],
         stdout = [''Checking for existing security group: sg-test...'',
                   ''Error describing security group: '' @ missing_group_reply]\<rparr>)"
proof -
  have unseen: "py_in ''DoesNotExist'' missing_group_reply = False"
    by (simp add: missing_group_reply_def quote_def)
  then show ?thesis
    by (simp add: create_security_group_def call_def py_print_def missing_group_client_def
          sample_client_def fresh_world_def)
qed

text \<open>
  The branch the script means to take is in order: on a lookup error whose text does
  contain \<^verbatim>\<open>DoesNotExist\<close>, and when the provider accepts the calls, it creates one rule
  set in the given network, authorizes port 22 and then port 80 from \<^verbatim>\<open>0.0.0.0/0\<close>, and
  returns the new identifier.
\<close>

lemma creation_branch_when_text_matches:
  assumes lookup: "ec2_describe_security_groups c [sg_name] (provider w) = (Inl (ClientError e), s1)"
    and not_found: "py_in ''DoesNotExist'' e"
    and create: "ec2_create_security_group c sg_name sg_description vpc_id s1 = (Inr sg_id, s2)"
    and ssh: "ec2_authorize_security_group_ingress c sg_id
                [\<lparr>IpProtocol = ''tcp'', FromPort = 22, ToPort = 22, IpRanges = [''0.0.0.0/0'']\<rparr>] s2
              = (Inr (), s3)"
    and http: "ec2_authorize_security_group_ingress c sg_id
                [\<lparr>IpProtocol = ''tcp'', FromPort = 80, ToPort = 80, IpRanges = [''0.0.0.0/0'']\<rparr>] s3
              = (Inr (), s4)"
  shows "fst (create_security_group c vpc_id sg_name sg_description w) = Return sg_id
       \<and> provider (snd (create_security_group c vpc_id sg_name sg_description w)) = s4
       \<and> trace (snd (create_security_group c vpc_id sg_name sg_description w)) =
           trace w @
             [DescribeSecurityGroups [sg_name],
              CreateSecurityGroup sg_name sg_description vpc_id,
              AuthorizeSecurityGroupIngress sg_id
                [\<lparr>IpProtocol = ''tcp'', FromPort = 22, ToPort = 22, IpRanges = [''0.0.0.0/0'']\<rparr>],
              AuthorizeSecurityGroupIngress sg_id
                [\<lparr>IpProtocol = ''tcp'', FromPort = 80, ToPort = 80, IpRanges = [''0.0.0.0/0'']\<rparr>]]"
  using assms
  by (simp add: create_security_group_def call_def ssh_rule_def http_rule_def)

subsection \<open>C5: no default network\<close>

text \<open>
  C5. Whenever the provider reports no default-flagged network, the script prints the
  no-default-network error and exits with status 1, and the describe-networks call is the
  only remote call it has made: no rule-set lookup or creation and no instance launch.
\<close>

theorem no_default_vpc_stops:
  assumes cfg: "fs ''config.yaml'' = Inr config"
    and region: "subscript config ''aws_region'' = Inr region"
    and client: "boto3_client region = Inr c"
    and none: "ec2_describe_vpcs c default_vpc_filter (provider w) = (Inr [], s')"
  shows "main fs boto3_client now w =
           (Exit 1,
            w\<lparr>provider := s',
              trace := trace w @ [DescribeVpcs default_vpc_filter],
              stdout := stdout w @
                [''Error: No default VPC found. Please specify a VPC ID in config or create a default VPC.'']\<rparr>)"
  using assms
  by (simp add: main_def load_config_def resolve_default_vpc_def call_def py_print_def)

theorem no_default_vpc_stops_witness:
  "main (\<lambda>path. Inr sample_config) (\<lambda>region. Inr no_vpc_client) 1730000000 fresh_world =
     (Exit 1,
      \<lparr>provider = 1,
       trace = [DescribeVpcs [(''isDefault'', [''true''])]],
       stdout = [''Error: No default VPC found. Please specify a VPC ID in config or create a default VPC.'']\<rparr>)"
  using no_default_vpc_stops
    [where fs = "\<lambda>path. Inr sample_config" and config = sample_config
       and region = "PyStr ''us-east-1''" and boto3_client = "\<lambda>region. Inr no_vpc_client"
       and c = no_vpc_client and w = fresh_world and s' = 1 and now = 1730000000]
  by (simp add: sample_config_fields no_vpc_client_def sample_client_def fresh_world_def
        default_vpc_filter_def)

subsection \<open>C6: fewer addresses than instances\<close>

text \<open>
  C6. For every run in which the launch returns N instances, the running-wait succeeds
  and the describe call reports M of them with a public address, the provisioner returns
  (it raises no exception, so no \<open>IndexError\<close>): the identifier list it reports has
  length N, the address list has length M, and the summary holds one block per instance,
  with an address line exactly in the blocks of index below M. In particular, when
  M < N the instances beyond the first M get no address line.
\<close>

theorem summary_survives_missing_addresses:
  assumes req: "launch_request config sg_id now = Inr req"
    and name: "subscript config ''security_group_name'' = Inr sg_name"
    and launch: "ec2_run_instances c req (provider w) = (Inr instances, s1)"
    and wait: "ec2_wait_instance_running c (map InstanceId instances) s1 = (Inr (), s2)"
    and describe: "ec2_describe_instances c (map InstanceId instances) s2 = (Inr reservations, s3)"
    and ids: "instance_ids = map InstanceId instances"
    and ips: "public_ips = collect_public_ips reservations"
  shows "fst (provision_ec2_instance c config sg_id now w) = Return (instance_ids, public_ips)
       \<and> length instance_ids = length instances
       \<and> length public_ips =
           length (filter (\<lambda>i. PublicIpAddress i \<noteq> None) (concat (map Instances reservations)))
       \<and> stdout (snd (provision_ec2_instance c config sg_id now w)) =
           stdout w @
             [newline @ ''Attempting to launch '' @ py_str (MaxCount req) @ '' EC2 instance(s)...'',
              ''Launched instance(s) with IDs: '' @ join '', '' instance_ids,
              ''Waiting for instance(s) to enter 'running' state...'',
              ''Instance(s) are now running.'',
              newline @ ''--- Provisioning Summary ---'']
             @ concat (map (\<lambda>(i, instance_id).
                 [''Instance ID: '' @ instance_id]
                 @ (if i < length public_ips then [''Public IP: '' @ public_ips ! i] else [])
                 @ [''Instance Type: '' @ py_str (InstanceType req),
                    ''AMI ID: '' @ py_str (ImageId req),
                    ''Key Pair: '' @ py_str (KeyName req),
                    ''Security Group: '' @ py_str sg_name @ '' ('' @ sg_id @ '')'',
                    replicate 25 CHR ''-'']) (enumerate 0 instance_ids))"
proof -
  note fields = launch_request_fields[OF req]
  note summary = print_summary_lines[OF fields(3) fields(1) fields(4) name]
  note run = provision_succeeds[OF req name launch wait describe ids ips]
  have count: "length public_ips =
      length (filter (\<lambda>i. PublicIpAddress i \<noteq> None) (concat (map Instances reservations)))"
    unfolding ips by (rule length_collect_public_ips)
  have out: "stdout (snd (provision_ec2_instance c config sg_id now w)) =
      stdout w @
        [newline @ ''Attempting to launch '' @ py_str (MaxCount req) @ '' EC2 instance(s)...'',
         ''Launched instance(s) with IDs: '' @ join '', '' instance_ids,
         ''Waiting for instance(s) to enter 'running' state...'',
         ''Instance(s) are now running.'',
         newline @ ''--- Provisioning Summary ---'']
        @ concat (map (\<lambda>(i, instance_id).
            [''Instance ID: '' @ instance_id]
            @ (if i < length public_ips then [''Public IP: '' @ public_ips ! i] else [])
            @ [''Instance Type: '' @ py_str (InstanceType req),
               ''AMI ID: '' @ py_str (ImageId req),
               ''Key Pair: '' @ py_str (KeyName req),
               ''Security Group: '' @ py_str sg_name @ '' ('' @ sg_id @ '')'',
               replicate 25 CHR ''-'']) (enumerate 0 instance_ids))"
    by (simp add: run summary)
  have ret: "fst (provision_ec2_instance c config sg_id now w) = Return (instance_ids, public_ips)"
    by (simp add: run)
  have len: "length instance_ids = length instances"
    by (simp add: ids)
  from ret len count out show ?thesis
    by (intro conjI)
qed

text \<open>Three instances, two addresses: the third block has no address line.\<close>

theorem summary_survives_missing_addresses_witness:
  "fst (provision_ec2_instance sample_client sample_config ''sg-1'' 1730000000 fresh_world) =
     Return ([''i-1'', ''i-2'', ''i-3''], [''203.0.113.1'', ''203.0.113.2''])
   \<and> stdout (snd (provision_ec2_instance sample_client sample_config ''sg-1'' 1730000000 fresh_world)) =
       [CHR 0x0A # ''Attempting to launch 3 EC2 instance(s)...'',
        ''Launched instance(s) with IDs: i-1, i-2, i-3'',
        ''Waiting for instance(s) to enter 'running' state...'',
        ''Instance(s) are now running.'',
        CHR 0x0A # ''--- Provisioning Summary ---'',
        ''Instance ID: i-1'',
        ''Public IP: 203.0.113.1'',
        ''Instance Type: t2.micro'',
        ''AMI ID: ami-123'',
        ''Key Pair: kp1'',
        ''Security Group: sg-test (sg-1)'',
        ''-------------------------'',
        ''Instance ID: i-2'',
        ''Public IP: 203.0.113.2'',
        ''Instance Type: t2.micro'',
        ''AMI ID: ami-123'',
        ''Key Pair: kp1'',
        ''Security Group: sg-test (sg-1)'',
        ''-------------------------'',
        ''Instance ID: i-3'',
        ''Instance Type: t2.micro'',
        ''AMI ID: ami-123'',
        ''Key Pair: kp1'',
        ''Security Group: sg-test (sg-1)'',
        ''-------------------------'']"
proof -
  have launch: "ec2_run_instances sample_client sample_request (provider fresh_world) =
      (Inr [\<lparr>InstanceId = ''i-1'', PublicIpAddress = None\<rparr>,
            \<lparr>InstanceId = ''i-2'', PublicIpAddress = None\<rparr>,
            \<lparr>InstanceId = ''i-3'', PublicIpAddress = None\<rparr>], 1)"
    by (simp add: sample_client_def fresh_world_def)
  have wait: "ec2_wait_instance_running sample_client
      (map InstanceId [\<lparr>InstanceId = ''i-1'', PublicIpAddress = None\<rparr>,
            \<lparr>InstanceId = ''i-2'', PublicIpAddress = None\<rparr>,
            \<lparr>InstanceId = ''i-3'', PublicIpAddress = None\<rparr>]) 1 = (Inr (), 2)"
    by (simp add: sample_client_def)
  have describe: "ec2_describe_instances sample_client
      (map InstanceId [\<lparr>InstanceId = ''i-1'', PublicIpAddress = None\<rparr>,
            \<lparr>InstanceId = ''i-2'', PublicIpAddress = None\<rparr>,
            \<lparr>InstanceId = ''i-3'', PublicIpAddress = None\<rparr>]) 2 =
      (Inr [\<lparr>Instances =
              [\<lparr>InstanceId = ''i-1'', PublicIpAddress = Some ''203.0.113.1''\<rparr>,
               \<lparr>InstanceId = ''i-2'', PublicIpAddress = Some ''203.0.113.2''\<rparr>,
               \<lparr>InstanceId = ''i-3'', PublicIpAddress = None\<rparr>]\<rparr>], 3)"
    by (simp add: sample_client_def)
  have ids: "[''i-1'', ''i-2'', ''i-3''] =
      map InstanceId [\<lparr>InstanceId = ''i-1'', PublicIpAddress = None\<rparr>,
            \<lparr>InstanceId = ''i-2'', PublicIpAddress = None\<rparr>,
            \<lparr>InstanceId = ''i-3'', PublicIpAddress = None\<rparr>]"
    by simp
  have ips: "[''203.0.113.1'', ''203.0.113.2''] = collect_public_ips
      [\<lparr>Instances =
              [\<lparr>InstanceId = ''i-1'', PublicIpAddress = Some ''203.0.113.1''\<rparr>,
               \<lparr>InstanceId = ''i-2'', PublicIpAddress = Some ''203.0.113.2''\<rparr>,
               \<lparr>InstanceId = ''i-3'', PublicIpAddress = None\<rparr>]\<rparr>]"
    by simp
  have dashes: "replicate 25 CHR ''-'' = ''-------------------------''"
    by (simp add: numeral_eq_Suc)
  show ?thesis
    using summary_survives_missing_addresses
      [OF sample_request_built sample_config_fields(6) launch wait describe ids ips]
    by (simp add: fresh_world_def sample_request_def str_int_samples newline_def
          enumerate_eq_zip upt_rec dashes)
qed

subsection \<open>C7: failures in the reclaimer\<close>

text \<open>
  C7 as stated does not hold. The reclaimer's handlers catch \<open>ClientError\<close> only. When
  the wait for termination fails, which a boto3 waiter reports with \<open>WaiterError\<close>, the
  exception leaves the function: the rule-set deletion is not attempted and the process
  ends with status 1.
\<close>

theorem waiter_failure_escapes_cleanup_counterexample:
  "fst (cleanup_resources stuck_waiter_client [''i-1''] ''sg-1'' fresh_world) =
     Uncaught (WaiterError ''Max attempts exceeded'')
   \<and> exit_status (fst (cleanup_resources stuck_waiter_client [''i-1''] ''sg-1'' fresh_world)) = 1
   \<and> trace (snd (cleanup_resources stuck_waiter_client [''i-1''] ''sg-1'' fresh_world)) =
       [TerminateInstances [''i-1''], WaitInstanceTerminated [''i-1'']]"
  by (simp add: cleanup_resources_def terminate_block_def call_def
        stuck_waiter_client_def sample_client_def fresh_world_def)

text \<open>
  C7, as amended. In the reclaimer every \<open>ClientError\<close> raised by the terminate call,
  the wait for termination or the delete call is reported (its message is printed) and
  is not fatal. A \<open>ClientError\<close> of the terminate call or of the wait ends the
  termination block only: the rule-set deletion is still attempted afterwards whenever
  a rule-set identifier is given, and when the delete call returns or raises
  \<open>ClientError\<close> the reclaimer returns normally. An exception of any other class raised
  by one of the three calls is not caught: it leaves the reclaimer at once, no later
  call is made, and nothing is printed for it. The four cases of the termination block
  (no identifiers; terminate refused; wait refused; both succeed) give the state, the
  calls and the lines before the deletion block.
\<close>

theorem cleanup_catches_client_errors_only:
  "((instance_ids = [] \<and> s1 = provider w \<and> calls = [] \<and> lines = []
     \<or> instance_ids \<noteq> []
        \<and> ec2_terminate_instances c instance_ids (provider w) = (Inl (ClientError msg), s1)
        \<and> calls = [TerminateInstances instance_ids]
        \<and> lines = [newline @ ''Terminating instance(s): '' @ join '', '' instance_ids @ ''...'',
                    ''Error terminating instance(s): '' @ msg]
     \<or> instance_ids \<noteq> []
        \<and> (\<exists>s. ec2_terminate_instances c instance_ids (provider w) = (Inr (), s)
               \<and> ec2_wait_instance_terminated c instance_ids s = (Inl (ClientError msg), s1))
        \<and> calls = [TerminateInstances instance_ids, WaitInstanceTerminated instance_ids]
        \<and> lines = [newline @ ''Terminating instance(s): '' @ join '', '' instance_ids @ ''...'',
                    ''Error terminating instance(s): '' @ msg]
     \<or> instance_ids \<noteq> []
        \<and> (\<exists>s. ec2_terminate_instances c instance_ids (provider w) = (Inr (), s)
               \<and> ec2_wait_instance_terminated c instance_ids s = (Inr (), s1))
        \<and> calls = [TerminateInstances instance_ids, WaitInstanceTerminated instance_ids]
        \<and> lines = [newline @ ''Terminating instance(s): '' @ join '', '' instance_ids @ ''...'',
                    ''Instance(s) terminated successfully.''])
    \<longrightarrow>
      (sg_id = [] \<longrightarrow>
         cleanup_resources c instance_ids sg_id w =
           (Return (), w\<lparr>provider := s1, trace := trace w @ calls, stdout := stdout w @ lines\<rparr>))
    \<and> (sg_id \<noteq> [] \<and> ec2_delete_security_group c sg_id s1 = (Inr (), s2) \<longrightarrow>
         cleanup_resources c instance_ids sg_id w =
           (Return (),
            w\<lparr>provider := s2,
              trace := trace w @ calls @ [Sleep 10, DeleteSecurityGroup sg_id],
              stdout := stdout w @ lines @
                [''Deleting security group: '' @ sg_id @ ''...'',
                 ''Security group '' @ quote @ sg_id @ quote @ '' deleted successfully.'']\<rparr>))
    \<and> (sg_id \<noteq> [] \<and> ec2_delete_security_group c sg_id s1 = (Inl (ClientError msg'), s2) \<longrightarrow>
         cleanup_resources c instance_ids sg_id w =
           (Return (),
            w\<lparr>provider := s2,
              trace := trace w @ calls @ [Sleep 10, DeleteSecurityGroup sg_id],
              stdout := stdout w @ lines @
                [''Deleting security group: '' @ sg_id @ ''...'',
                 ''Error deleting security group '' @ quote @ sg_id @ quote @ '': '' @ msg',
                 ''You might need to manually delete the security group if instances were still attached.'']\<rparr>))
    \<and> (sg_id \<noteq> [] \<and> ec2_delete_security_group c sg_id s1 = (Inl e, s2)
         \<and> (\<forall>text. e \<noteq> ClientError text) \<longrightarrow>
         cleanup_resources c instance_ids sg_id w =
           (Uncaught e,
            w\<lparr>provider := s2,
              trace := trace w @ calls @ [Sleep 10, DeleteSecurityGroup sg_id],
              stdout := stdout w @ lines @ [''Deleting security group: '' @ sg_id @ ''...'']\<rparr>)))
   \<and> (instance_ids \<noteq> [] \<and> ec2_terminate_instances c instance_ids (provider w) = (Inl e, s2)
       \<and> (\<forall>text. e \<noteq> ClientError text) \<longrightarrow>
       cleanup_resources c instance_ids sg_id w =
         (Uncaught e,
          w\<lparr>provider := s2,
            trace := trace w @ [TerminateInstances instance_ids],
            stdout := stdout w @
              [newline @ ''Terminating instance(s): '' @ join '', '' instance_ids @ ''...'']\<rparr>))
   \<and> (instance_ids \<noteq> []
       \<and> (\<exists>s. ec2_terminate_instances c instance_ids (provider w) = (Inr (), s)
              \<and> ec2_wait_instance_terminated c instance_ids s = (Inl e, s2))
       \<and> (\<forall>text. e \<noteq> ClientError text) \<longrightarrow>
       cleanup_resources c instance_ids sg_id w =
         (Uncaught e,
          w\<lparr>provider := s2,
            trace := trace w @ [TerminateInstances instance_ids, WaitInstanceTerminated instance_ids],
            stdout := stdout w @
              [newline @ ''Terminating instance(s): '' @ join '', '' instance_ids @ ''...'']\<rparr>))"
proof (intro conjI impI)
  let ?w1 = "w\<lparr>provider := s1, trace := trace w @ calls, stdout := stdout w @ lines\<rparr>"
  assume scenario:
    "instance_ids = [] \<and> s1 = provider w \<and> calls = [] \<and> lines = []
     \<or> instance_ids \<noteq> []
        \<and> ec2_terminate_instances c instance_ids (provider w) = (Inl (ClientError msg), s1)
        \<and> calls = [TerminateInstances instance_ids]
        \<and> lines = [newline @ ''Terminating instance(s): '' @ join '', '' instance_ids @ ''...'',
                    ''Error terminating instance(s): '' @ msg]
     \<or> instance_ids \<noteq> []
        \<and> (\<exists>s. ec2_terminate_instances c instance_ids (provider w) = (Inr (), s)
               \<and> ec2_wait_instance_terminated c instance_ids s = (Inl (ClientError msg), s1))
        \<and> calls = [TerminateInstances instance_ids, WaitInstanceTerminated instance_ids]
        \<and> lines = [newline @ ''Terminating instance(s): '' @ join '', '' instance_ids @ ''...'',
                    ''Error terminating instance(s): '' @ msg]
     \<or> instance_ids \<noteq> []
        \<and> (\<exists>s. ec2_terminate_instances c instance_ids (provider w) = (Inr (), s)
               \<and> ec2_wait_instance_terminated c instance_ids s = (Inr (), s1))
        \<and> calls = [TerminateInstances instance_ids, WaitInstanceTerminated instance_ids]
        \<and> lines = [newline @ ''Terminating instance(s): '' @ join '', '' instance_ids @ ''...'',
                    ''Instance(s) terminated successfully.'']"
  note block = terminate_block_caught[OF scenario]
  show "cleanup_resources c instance_ids sg_id w = (Return (), ?w1)" if "sg_id = []"
    using that by (simp add: cleanup_resources_def block delete_block_def)
  show "cleanup_resources c instance_ids sg_id w =
           (Return (),
            w\<lparr>provider := s2,
              trace := trace w @ calls @ [Sleep 10, DeleteSecurityGroup sg_id],
              stdout := stdout w @ lines @
                [''Deleting security group: '' @ sg_id @ ''...'',
                 ''Security group '' @ quote @ sg_id @ quote @ '' deleted successfully.'']\<rparr>)"
    if "sg_id \<noteq> [] \<and> ec2_delete_security_group c sg_id s1 = (Inr (), s2)"
    using that by (simp add: cleanup_resources_def block delete_block_cases(1)[where w = ?w1])
  show "cleanup_resources c instance_ids sg_id w =
           (Return (),
            w\<lparr>provider := s2,
              trace := trace w @ calls @ [Sleep 10, DeleteSecurityGroup sg_id],
              stdout := stdout w @ lines @
                [''Deleting security group: '' @ sg_id @ ''...'',
                 ''Error deleting security group '' @ quote @ sg_id @ quote @ '': '' @ msg',
                 ''You might need to manually delete the security group if instances were still attached.'']\<rparr>)"
    if "sg_id \<noteq> [] \<and> ec2_delete_security_group c sg_id s1 = (Inl (ClientError msg'), s2)"
    using that by (simp add: cleanup_resources_def block delete_block_cases(2)[where w = ?w1])
  show "cleanup_resources c instance_ids sg_id w =
           (Uncaught e,
            w\<lparr>provider := s2,
              trace := trace w @ calls @ [Sleep 10, DeleteSecurityGroup sg_id],
              stdout := stdout w @ lines @ [''Deleting security group: '' @ sg_id @ ''...'']\<rparr>)"
    if "sg_id \<noteq> [] \<and> ec2_delete_security_group c sg_id s1 = (Inl e, s2)
         \<and> (\<forall>text. e \<noteq> ClientError text)"
  proof -
    from that have "delete_block c sg_id ?w1 =
        (Inl e,
         ?w1\<lparr>provider := s2,
           trace := trace ?w1 @ [Sleep 10, DeleteSecurityGroup sg_id],
           stdout := stdout ?w1 @ [''Deleting security group: '' @ sg_id @ ''...'']\<rparr>)"
      by (intro delete_block_escapes) simp_all
    then show ?thesis
      by (simp add: cleanup_resources_def block)
  qed
next
  assume "instance_ids \<noteq> [] \<and> ec2_terminate_instances c instance_ids (provider w) = (Inl e, s2)
       \<and> (\<forall>text. e \<noteq> ClientError text)"
  then show "cleanup_resources c instance_ids sg_id w =
         (Uncaught e,
          w\<lparr>provider := s2,
            trace := trace w @ [TerminateInstances instance_ids],
            stdout := stdout w @
              [newline @ ''Terminating instance(s): '' @ join '', '' instance_ids @ ''...'']\<rparr>)"
    by (simp add: cleanup_resources_def terminate_block_escapes(1)[where e = e and ?s2.0 = s2])
next
  assume "instance_ids \<noteq> []
       \<and> (\<exists>s. ec2_terminate_instances c instance_ids (provider w) = (Inr (), s)
              \<and> ec2_wait_instance_terminated c instance_ids s = (Inl e, s2))
       \<and> (\<forall>text. e \<noteq> ClientError text)"
  then show "cleanup_resources c instance_ids sg_id w =
         (Uncaught e,
          w\<lparr>provider := s2,
            trace := trace w @ [TerminateInstances instance_ids, WaitInstanceTerminated instance_ids],
            stdout := stdout w @
              [newline @ ''Terminating instance(s): '' @ join '', '' instance_ids @ ''...'']\<rparr>)"
  proof (elim conjE exE)
    fix s
    assume "instance_ids \<noteq> []" "\<forall>text. e \<noteq> ClientError text"
      "ec2_terminate_instances c instance_ids (provider w) = (Inr (), s)"
      "ec2_wait_instance_terminated c instance_ids s = (Inl e, s2)"
    then show ?thesis
      by (simp add: cleanup_resources_def terminate_block_escapes(2)[where e = e and s = s and ?s2.0 = s2])
  qed
qed

text \<open>
  Termination and deletion both refused by the service: both are reported, the deletion
  is attempted and the reclaimer returns. A wait that gives up with \<open>WaiterError\<close>:
  the exception escapes after the two calls of the termination block.
\<close>

theorem cleanup_catches_client_errors_only_witness:
  "cleanup_resources failing_cleanup_client [''i-1''] ''sg-1'' fresh_world =
     (Return (),
      \<lparr>provider = 2,
       trace = [TerminateInstances [''i-1''], Sleep 10, DeleteSecurityGroup ''sg-1''],
       stdout = [CHR 0x0A # ''Terminating instance(s): i-1...'',
                 ''Error terminating instance(s): UnauthorizedOperation'',
                 ''Deleting security group: sg-1...'',
                 ''Error deleting security group 'sg-1': DependencyViolation'',
                 ''You might need to manually delete the security group if instances were still attached.'']\<rparr>)
   \<and> cleanup_resources stuck_waiter_client [''i-1'', ''i-2''] ''sg-1'' fresh_world =
     (Uncaught (WaiterError ''Max attempts exceeded''),
      \<lparr>provider = 2,
       trace = [TerminateInstances [''i-1'', ''i-2''], WaitInstanceTerminated [''i-1'', ''i-2'']],
       stdout = [CHR 0x0A # ''Terminating instance(s): i-1, i-2...'']\<rparr>)"
proof -
  note caught = cleanup_catches_client_errors_only
    [where c = failing_cleanup_client and instance_ids = "[''i-1'']" and sg_id = "''sg-1''"
       and w = fresh_world and ?s1.0 = 1 and ?s2.0 = 2
       and msg = "''UnauthorizedOperation''" and msg' = "''DependencyViolation''"
       and calls = "[TerminateInstances [''i-1'']]"
       and lines = "[newline @ ''Terminating instance(s): '' @ join '', '' [''i-1''] @ ''...'',
                     ''Error terminating instance(s): '' @ ''UnauthorizedOperation'']",
     THEN conjunct1, THEN mp, THEN conjunct2, THEN conjunct2, THEN conjunct1, THEN mp]
  have refused: "cleanup_resources failing_cleanup_client [''i-1''] ''sg-1'' fresh_world =
     (Return (),
      fresh_world\<lparr>provider := 2,
        trace := trace fresh_world @ [TerminateInstances [''i-1'']] @ [Sleep 10, DeleteSecurityGroup ''sg-1''],
        stdout := stdout fresh_world
          @ [newline @ ''Terminating instance(s): '' @ join '', '' [''i-1''] @ ''...'',
             ''Error terminating instance(s): '' @ ''UnauthorizedOperation'']
          @ [''Deleting security group: '' @ ''sg-1'' @ ''...'',
             ''Error deleting security group '' @ quote @ ''sg-1'' @ quote @ '': '' @ ''DependencyViolation'',
             ''You might need to manually delete the security group if instances were still attached.'']\<rparr>)"
    by (rule caught) (simp_all add: failing_cleanup_client_def sample_client_def fresh_world_def)
  note escaped = cleanup_catches_client_errors_only
    [where c = stuck_waiter_client and instance_ids = "[''i-1'', ''i-2'']" and sg_id = "''sg-1''"
       and w = fresh_world and ?s2.0 = 2 and e = "WaiterError ''Max attempts exceeded''",
     THEN conjunct2, THEN conjunct2, THEN mp]
  have gave_up: "cleanup_resources stuck_waiter_client [''i-1'', ''i-2''] ''sg-1'' fresh_world =
     (Uncaught (WaiterError ''Max attempts exceeded''),
      fresh_world\<lparr>provider := 2,
        trace := trace fresh_world
          @ [TerminateInstances [''i-1'', ''i-2''], WaitInstanceTerminated [''i-1'', ''i-2'']],
        stdout := stdout fresh_world
          @ [newline @ ''Terminating instance(s): '' @ join '', '' [''i-1'', ''i-2''] @ ''...'']\<rparr>)"
    by (rule escaped) (simp add: stuck_waiter_client_def sample_client_def fresh_world_def)
  show ?thesis
    unfolding refused gave_up
    by (simp add: fresh_world_def newline_def quote_def)
qed

subsection \<open>C8: a failed launch\<close>

text \<open>
  C8 as stated does not hold. The two hints hang on two independent tests of the error
  text (lines 139 and 142). A launch that fails for a missing key pair whose name is
  \<^verbatim>\<open>InvalidAMIID.NotFound\<close> gets an error text that passes both, and the script prints
  two hint lines, not one, before it exits.
\<close>

theorem two_hint_lines_counterexample:
  "provision_ec2_instance missing_key_client odd_key_config ''sg-1'' 1730000000 fresh_world =
     (Exit 1,
      \<lparr>provider = 1,
       trace = [RunInstances (sample_request\<lparr>KeyName := PyStr ''InvalidAMIID.NotFound''\<rparr>)],
       stdout = [CHR 0x0A # ''Attempting to launch 3 EC2 instance(s)...'',
                 ''Error launching EC2 instance(s): '' @ missing_key_reply,
                 ''Please ensure the key_pair_name in config.yaml exists in your AWS EC2 Key Pairs.'',
                 ''Please verify the ami_id in config.yaml is correct for your region.'']\<rparr>)"
proof -
  have key: "py_in ''InvalidKeyPair.NotFound'' missing_key_reply"
    by (simp add: missing_key_reply_def)
  have image: "py_in ''InvalidAMIID.NotFound'' missing_key_reply"
    by (simp add: missing_key_reply_def)
  show ?thesis
    by (simp add: provision_ec2_instance_def launch_request_def odd_key_config_def call_def
          launch_error_def key image py_print_def missing_key_client_def sample_client_def
          fresh_world_def sample_request_def str_int_samples newline_def)
qed

text \<open>
  C8, as amended. Every failure of the run-instances call is fatal: whatever exception
  the call raises, the process ends with status 1. When the failure is a \<open>ClientError\<close>,
  the script prints the error and then one hint line for each recognised sub-case whose
  marker occurs in the error text: the key-pair hint for \<^verbatim>\<open>InvalidKeyPair.NotFound\<close>, the
  image hint for \<^verbatim>\<open>InvalidAMIID.NotFound\<close> or \<^verbatim>\<open>InvalidAMIID.Malformed\<close>. That is one hint
  line when the text names one sub-case and two when it names both. The hints change
  nothing else: the exit is \<^verbatim>\<open>sys.exit(1)\<close> and no further call is made.
\<close>

theorem launch_failure_is_fatal:
  assumes req: "launch_request config sg_id now = Inr req"
    and failure: "ec2_run_instances c req (provider w) = (Inl e, s')"
  shows "exit_status (fst (provision_ec2_instance c config sg_id now w)) = 1
       \<and> (\<forall>msg. e = ClientError msg \<longrightarrow>
            provision_ec2_instance c config sg_id now w =
              (Exit 1,
               w\<lparr>provider := s',
                 trace := trace w @ [RunInstances req],
                 stdout := stdout w @
                   [newline @ ''Attempting to launch '' @ py_str (MaxCount req) @ '' EC2 instance(s)...'',
                    ''Error launching EC2 instance(s): '' @ msg]
                   @ (if py_in ''InvalidKeyPair.NotFound'' msg
                      then [''Please ensure the key_pair_name in config.yaml exists in your AWS EC2 Key Pairs.'']
                      else [])
                   @ (if py_in ''InvalidAMIID.NotFound'' msg \<or> py_in ''InvalidAMIID.Malformed'' msg
                      then [''Please verify the ami_id in config.yaml is correct for your region.'']
                      else [])\<rparr>))"
proof -
  let ?w2 = "(py_print (newline @ ''Attempting to launch '' @ py_str (MaxCount req) @ '' EC2 instance(s)...'') w)
               \<lparr>provider := s', trace := trace w @ [RunInstances req]\<rparr>"
  have step: "provision_ec2_instance c config sg_id now w = launch_error e ?w2"
    using failure launch_request_fields(2)[OF req] req
    by (simp add: provision_ec2_instance_def call_def Let_def)
  have fatal: "exit_status (fst (provision_ec2_instance c config sg_id now w)) = 1"
    by (simp only: step launch_error_fatal)
  have hints: "launch_error (ClientError msg) ?w2 =
      (Exit 1,
       w\<lparr>provider := s',
         trace := trace w @ [RunInstances req],
         stdout := stdout w @
           [newline @ ''Attempting to launch '' @ py_str (MaxCount req) @ '' EC2 instance(s)...'',
            ''Error launching EC2 instance(s): '' @ msg]
           @ (if py_in ''InvalidKeyPair.NotFound'' msg
              then [''Please ensure the key_pair_name in config.yaml exists in your AWS EC2 Key Pairs.'']
              else [])
           @ (if py_in ''InvalidAMIID.NotFound'' msg \<or> py_in ''InvalidAMIID.Malformed'' msg
              then [''Please verify the ami_id in config.yaml is correct for your region.'']
              else [])\<rparr>)" for msg
    by (simp add: launch_error_def Let_def py_print_def)
  show ?thesis
    using fatal hints by (simp only: step) blast
qed

text \<open>A launch refused for its key pair: the error line, one hint line, exit 1.\<close>

theorem launch_failure_is_fatal_witness:
  "provision_ec2_instance bad_key_client sample_config ''sg-1'' 1730000000 fresh_world =
     (Exit 1,
      \<lparr>provider = 1,
       trace = [RunInstances sample_request],
       stdout = [CHR 0x0A # ''Attempting to launch 3 EC2 instance(s)...'',
                 ''Error launching EC2 instance(s): InvalidKeyPair.NotFound'',
                 ''Please ensure the key_pair_name in config.yaml exists in your AWS EC2 Key Pairs.'']\<rparr>)
   \<and> exit_status (fst (provision_ec2_instance bad_key_client sample_config ''sg-1'' 1730000000
         fresh_world)) = 1"
proof -
  have failure: "ec2_run_instances bad_key_client sample_request (provider fresh_world) =
      (Inl (ClientError ''InvalidKeyPair.NotFound''), 1)"
    by (simp add: bad_key_client_def sample_client_def fresh_world_def)
  note inst = launch_failure_is_fatal[OF sample_request_built failure]
  have "provision_ec2_instance bad_key_client sample_config ''sg-1'' 1730000000 fresh_world =
     (Exit 1,
      \<lparr>provider = 1,
       trace = [RunInstances sample_request],
       stdout = [CHR 0x0A # ''Attempting to launch 3 EC2 instance(s)...'',
                 ''Error launching EC2 instance(s): InvalidKeyPair.NotFound'',
                 ''Please ensure the key_pair_name in config.yaml exists in your AWS EC2 Key Pairs.'']\<rparr>)"
    using inst[THEN conjunct2, rule_format, OF refl]
    by (simp add: fresh_world_def sample_request_def str_int_samples newline_def)
  then show ?thesis
    using inst[THEN conjunct1] by simp
qed

subsection \<open>C9: a rule that cannot be attached\<close>

text \<open>
  C9. If, after the new rule set has been created, the attachment of either ingress
  rule fails (with any exception), the process ends with status 1 and makes no further
  call: the trace ends with the failed authorize-ingress call, so there is no
  delete-rule-set call (the rule set just created is left behind) and no run-instances
  call.
\<close>

theorem failed_rule_attachment_is_fatal:
  assumes cfg: "fs ''config.yaml'' = Inr config"
    and region: "subscript config ''aws_region'' = Inr region"
    and client: "boto3_client region = Inr c"
    and vpcs: "ec2_describe_vpcs c default_vpc_filter (provider w) = (Inr (v # vs), s0)"
    and name: "subscript config ''security_group_name'' = Inr sg_name"
    and descr: "subscript config ''security_group_description'' = Inr sg_description"
    and lookup: "ec2_describe_security_groups c [sg_name] s0 = (Inl (ClientError e), s1)"
    and not_found: "py_in ''DoesNotExist'' e"
    and create: "ec2_create_security_group c sg_name sg_description (VpcId v) s1 = (Inr sg_id, s2)"
    and failure:
      "ec2_authorize_security_group_ingress c sg_id [ssh_rule] s2 = (Inl err, s3) \<and> later = []
       \<or> (\<exists>s. ec2_authorize_security_group_ingress c sg_id [ssh_rule] s2 = (Inr (), s)
              \<and> ec2_authorize_security_group_ingress c sg_id [http_rule] s = (Inl err, s3))
         \<and> later = [AuthorizeSecurityGroupIngress sg_id [http_rule]]"
  shows "exit_status (fst (main fs boto3_client now w)) = 1
       \<and> provider (snd (main fs boto3_client now w)) = s3
       \<and> trace (snd (main fs boto3_client now w)) =
           trace w @
             [DescribeVpcs default_vpc_filter,
              DescribeSecurityGroups [sg_name],
              CreateSecurityGroup sg_name sg_description (VpcId v),
              AuthorizeSecurityGroupIngress sg_id [ssh_rule]] @ later"
proof -
  note start = main_reaches_security_group
    [where fs = fs and boto3_client = boto3_client, OF cfg region client vpcs name descr]
  from failure show ?thesis
  proof (elim disjE conjE exE)
    assume "ec2_authorize_security_group_ingress c sg_id [ssh_rule] s2 = (Inl err, s3)" "later = []"
    then show ?thesis
      using lookup not_found create
      by (simp add: start create_security_group_def call_def)
  next
    fix s
    assume "ec2_authorize_security_group_ingress c sg_id [ssh_rule] s2 = (Inr (), s)"
      "ec2_authorize_security_group_ingress c sg_id [http_rule] s = (Inl err, s3)"
      "later = [AuthorizeSecurityGroupIngress sg_id [http_rule]]"
    then show ?thesis
      using lookup not_found create
      by (simp add: start create_security_group_def call_def)
  qed
qed

text \<open>The second rule is refused: four calls after the network lookup, then exit 1.\<close>

theorem failed_rule_attachment_is_fatal_witness:
  "exit_status (fst (main (\<lambda>path. Inr sample_config) (\<lambda>region. Inr rule_refusing_client)
      1730000000 fresh_world)) = 1
   \<and> trace (snd (main (\<lambda>path. Inr sample_config) (\<lambda>region. Inr rule_refusing_client)
      1730000000 fresh_world)) =
       [DescribeVpcs [(''isDefault'', [''true''])],
        DescribeSecurityGroups [PyStr ''sg-test''],
        CreateSecurityGroup (PyStr ''sg-test'') (PyStr ''test'') ''vpc-0a'',
        AuthorizeSecurityGroupIngress ''sg-1''
          [\<lparr>IpProtocol = ''tcp'', FromPort = 22, ToPort = 22, IpRanges = [''0.0.0.0/0'']\<rparr>],
        AuthorizeSecurityGroupIngress ''sg-1''
          [\<lparr>IpProtocol = ''tcp'', FromPort = 80, ToPort = 80, IpRanges = [''0.0.0.0/0'']\<rparr>]]"
proof -
  have vpcs: "ec2_describe_vpcs rule_refusing_client default_vpc_filter (provider fresh_world) =
      (Inr (\<lparr>VpcId = ''vpc-0a''\<rparr> # [\<lparr>VpcId = ''vpc-0b''\<rparr>]), 1)"
    by (simp add: rule_refusing_client_def new_group_client_def sample_client_def fresh_world_def)
  have lookup: "ec2_describe_security_groups rule_refusing_client [PyStr ''sg-test''] 1 =
      (Inl (ClientError ''group DoesNotExist''), 2)"
    by (simp add: rule_refusing_client_def new_group_client_def sample_client_def)
  have not_found: "py_in ''DoesNotExist'' ''group DoesNotExist''"
    by simp
  have create: "ec2_create_security_group rule_refusing_client (PyStr ''sg-test'') (PyStr ''test'')
      (VpcId \<lparr>VpcId = ''vpc-0a''\<rparr>) 2 = (Inr ''sg-1'', 3)"
    by (simp add: rule_refusing_client_def new_group_client_def sample_client_def)
  have failure:
      "ec2_authorize_security_group_ingress rule_refusing_client ''sg-1'' [ssh_rule] 3
         = (Inl (ClientError ''rule refused''), 5)
         \<and> [AuthorizeSecurityGroupIngress ''sg-1'' [http_rule]] = []
       \<or> (\<exists>s. ec2_authorize_security_group_ingress rule_refusing_client ''sg-1'' [ssh_rule] 3 = (Inr (), s)
              \<and> ec2_authorize_security_group_ingress rule_refusing_client ''sg-1'' [http_rule] s
                  = (Inl (ClientError ''rule refused''), 5))
         \<and> [AuthorizeSecurityGroupIngress ''sg-1'' [http_rule]]
             = [AuthorizeSecurityGroupIngress ''sg-1'' [http_rule]]"
    by (simp add: rule_refusing_client_def new_group_client_def sample_client_def
          ssh_rule_def http_rule_def)
  show ?thesis
    using failed_rule_attachment_is_fatal
      [where fs = "\<lambda>path. Inr sample_config" and boto3_client = "\<lambda>region. Inr rule_refusing_client"
         and now = 1730000000,
       OF refl sample_config_fields(1) refl vpcs sample_config_fields(6) sample_config_fields(7)
          lookup not_found create failure]
    by (simp add: fresh_world_def default_vpc_filter_def ssh_rule_def http_rule_def)
qed

subsection \<open>C10: more than one default network\<close>

text \<open>
  C10. Whenever the provider returns a non-empty list of default-flagged networks, the
  network resolver returns the identifier of the first element of the list; the result,
  the trace and the output are the same whatever the later elements are.
\<close>

theorem first_default_vpc_chosen:
  assumes "ec2_describe_vpcs c default_vpc_filter (provider w) = (Inr (v # vs), s')"
  shows "resolve_default_vpc c w =
           (Return (VpcId v),
            w\<lparr>provider := s',
              trace := trace w @ [DescribeVpcs default_vpc_filter],
              stdout := stdout w @ [''Using Default VPC ID: '' @ VpcId v]\<rparr>)"
  using assms
  by (simp add: resolve_default_vpc_def call_def py_index_def py_print_def)

text \<open>Two default-flagged networks: the first is used.\<close>

theorem first_default_vpc_chosen_witness:
  "resolve_default_vpc sample_client fresh_world =
     (Return ''vpc-0a'',
      \<lparr>provider = 1,
       trace = [DescribeVpcs [(''isDefault'', [''true''])]],
       stdout = [''Using Default VPC ID: vpc-0a'']\<rparr>)"
  using first_default_vpc_chosen
    [where c = sample_client and w = fresh_world and v = "\<lparr>VpcId = ''vpc-0a''\<rparr>"
       and vs = "[\<lparr>VpcId = ''vpc-0b''\<rparr>]" and s' = 1]
  by (simp add: sample_client_def fresh_world_def default_vpc_filter_def)

end
